theory Spec2Isabelle
  imports Complex_Main "HOL-Library.Log_Nat"
begin

section \<open>Arithmetic of the target (ESP32, 32-bit \<open>int\<close>, IEEE-754 \<open>float\<close> and \<open>double\<close>)\<close>

text \<open>
  The firmware's \<open>int\<close> is a 32-bit two's complement integer. The model keeps integers as
  \<open>int\<close> and writes the wrap-around out where the source computes (\<open>wrap32\<close>).
  Division of C integers truncates towards zero (\<open>c_div\<close>).
\<close>

definition INT_MIN :: int where
  "INT_MIN = - 2147483648"

definition INT_MAX :: int where
  "INT_MAX = 2147483647"

definition in_int32 :: "int \<Rightarrow> bool" where
  "in_int32 x = (INT_MIN \<le> x \<and> x \<le> INT_MAX)"

definition wrap32 :: "int \<Rightarrow> int" where
  "wrap32 x = (x + 2147483648) mod 4294967296 - 2147483648"

definition c_div :: "int \<Rightarrow> int \<Rightarrow> int" where
  "c_div a b = (if (a < 0) = (b < 0) then \<bar>a\<bar> div \<bar>b\<bar> else - (\<bar>a\<bar> div \<bar>b\<bar>))"

text \<open>
  A finite floating-point value is the rational it denotes. Every operation of the source
  rounds its exact result to the nearest value with 24 (\<open>float\<close>) or 53 (\<open>double\<close>)
  significant bits, ties to the even significand. The values that occur (products and
  quotients of 32-bit integers and the constant 100) stay far inside the exponent range of
  both formats, so the exponent is not bounded in the model.
\<close>

definition round_ties_even :: "rat \<Rightarrow> int" where
  "round_ties_even x =
     (let n = \<lfloor>x\<rfloor>; r = x - of_int n
      in if r < 1 / 2 then n else if 1 / 2 < r then n + 1 else if even n then n else n + 1)"

text \<open>\<open>binary_exponent x\<close> is the \<open>e\<close> with \<open>2^e \<le> |x| < 2^(e+1)\<close>, for \<open>x \<noteq> 0\<close>.\<close>

definition binary_exponent :: "rat \<Rightarrow> int" where
  "binary_exponent x =
     (let n = bitlen (fst (quotient_of \<bar>x\<bar>)) - bitlen (snd (quotient_of \<bar>x\<bar>))
      in if 2 powi n \<le> \<bar>x\<bar> then n else n - 1)"

definition round_to_precision :: "nat \<Rightarrow> rat \<Rightarrow> rat" where
  "round_to_precision p x =
     (if x = 0 then 0
      else let q = 2 powi (binary_exponent x - int p + 1)
           in of_int (round_ties_even (x / q)) * q)"

definition to_float :: "rat \<Rightarrow> rat" where
  "to_float x = round_to_precision 24 x"

definition to_double :: "rat \<Rightarrow> rat" where
  "to_double x = round_to_precision 53 x"

text \<open>
  \<open>round\<close> rounds to the nearest integer, halves away from zero. The cast of the result
  to \<open>int\<close> is defined only when the value fits; otherwise the behaviour of the C++
  program is undefined, which the model reports as a fault.
\<close>

datatype fault = NullDereference | FloatToIntUndefined

definition c_round :: "rat \<Rightarrow> int" where
  "c_round x = (if 0 \<le> x then \<lfloor>x + 1 / 2\<rfloor> else \<lceil>x - 1 / 2\<rceil>)"

definition cast_int :: "int \<Rightarrow> fault + int" where
  "cast_int n = (if in_int32 n then Inr n else Inl FloatToIntUndefined)"

text \<open>Division of two \<open>float\<close>s: a zero divisor gives an infinity or a NaN, no finite value.\<close>

definition float_div :: "rat \<Rightarrow> rat \<Rightarrow> rat option" where
  "float_div a b = (if b = 0 then None else Some (to_float (a / b)))"

section \<open>The collaborators of \<open>motor.h\<close>\<close>

subsection \<open>The motion engine (\<open>FastAccelStepper\<close>)\<close>

text \<open>
  The pulse generator is a library outside the repository. The model keeps what the
  controller can observe of it (\<open>getCurrentPosition\<close>, \<open>targetPos\<close>,
  \<open>isRunning\<close>), the speed and acceleration it was given, and the sequence of calls
  it received. A call changes the engine at once: \<open>forceStop\<close> halts it where it is,
  \<open>moveTo\<close> sets the target and starts it, \<open>stopMove\<close> only asks for a
  deceleration. The motion of the motor between two calls of the controller is a step of
  the environment (\<open>engineAdvance\<close>, \<open>engineArrive\<close>).
\<close>

datatype engine_call =
    ForceStop
  | StopMove
  | MoveTo int
  | SetCurrentPosition int
  | SetSpeedInHz int
  | SetAcceleration int
  | SetEnablePin
  | SetDirectionPin
  | SetAutoEnable bool
  | SetDelayToEnable int
  | SetDelayToDisable int

record engine =
  position :: int
  target :: int
  running :: bool
  speedHz :: int
  accel :: int
  calls :: "engine_call list"

definition getCurrentPosition :: "engine \<Rightarrow> int" where
  "getCurrentPosition e = position e"

definition targetPos :: "engine \<Rightarrow> int" where
  "targetPos e = target e"

definition isRunning :: "engine \<Rightarrow> bool" where
  "isRunning e = running e"

definition called :: "engine_call \<Rightarrow> engine \<Rightarrow> engine" where
  "called c e = e\<lparr>calls := calls e @ [c]\<rparr>"

definition forceStop :: "engine \<Rightarrow> engine" where
  "forceStop e = called ForceStop (e\<lparr>running := False\<rparr>)"

definition stopMove :: "engine \<Rightarrow> engine" where
  "stopMove e = called StopMove e"

definition moveTo :: "int \<Rightarrow> engine \<Rightarrow> engine" where
  "moveTo p e = called (MoveTo p) (e\<lparr>target := p, running := (p \<noteq> position e)\<rparr>)"

definition setCurrentPosition :: "int \<Rightarrow> engine \<Rightarrow> engine" where
  "setCurrentPosition p e = called (SetCurrentPosition p) (e\<lparr>position := p\<rparr>)"

definition setSpeedInHz :: "int \<Rightarrow> engine \<Rightarrow> engine" where
  "setSpeedInHz v e = called (SetSpeedInHz v) (e\<lparr>speedHz := v\<rparr>)"

definition setAcceleration :: "int \<Rightarrow> engine \<Rightarrow> engine" where
  "setAcceleration a e = called (SetAcceleration a) (e\<lparr>accel := a\<rparr>)"

subsection \<open>Persistent storage (\<open>Preferences\<close>)\<close>

text \<open>The key-value store, and the sequence of writes it received.\<close>

record preferences =
  store :: "string \<rightharpoonup> int"
  writes :: "(string \<times> int) list"

definition getInt :: "string \<Rightarrow> int \<Rightarrow> preferences \<Rightarrow> int" where
  "getInt k d m = (case store m k of None \<Rightarrow> d | Some v \<Rightarrow> v)"

definition putInt :: "string \<Rightarrow> int \<Rightarrow> preferences \<Rightarrow> preferences" where
  "putInt k v m = m\<lparr>store := (store m)(k \<mapsto> v), writes := writes m @ [(k, v)]\<rparr>"

subsection \<open>The constants of \<open>motor_settings.h\<close>\<close>

text \<open>
  \<open>motor_settings.h\<close> is not part of the sources at hand; the two constants of it that
  the controller uses are parameters of the model.
\<close>

record motor_settings =
  max_speed :: int
  acceleration :: int

section \<open>The controller of \<open>motor.h\<close>\<close>

text \<open>
  The global variables of the file. \<open>stepper\<close> is a pointer: \<open>None\<close> is the null
  pointer that \<open>stepperConnectToPin\<close> returns for an unusable pin, and a call through
  it is the fault \<open>NullDereference\<close>. \<open>serial\<close> is what was printed on the serial
  port, \<open>mqtt\<close> the percentages handed to \<open>sendMqtt\<close> (as numbers, before their
  conversion to a \<open>String\<close>).

  Every function takes the state and returns the new one, or the fault it ran into
  together with the state the variables were in at that point (what the function had
  assigned and printed before the fault is kept). Calls that change none of these variables
  are left out: \<open>memory.begin\<close> in \<open>loadPositions\<close>, \<open>vTaskDelay\<close> in
  \<open>motorRun\<close>. The global \<open>maxPos\<close> that \<open>percentToSteps\<close> reads is its second
  argument here.
\<close>

record motor_state =
  stepper :: "engine option"
  memory :: preferences
  maxPos :: int
  currPos :: int
  prevPos :: int
  isSetMax :: bool
  isSetMin :: bool
  isMotorRunning :: bool
  serial :: "string list"
  mqtt :: "int list"

type_synonym crash = "fault \<times> motor_state"

definition stallguardInterrupt :: "motor_state \<Rightarrow> crash + motor_state" where
  "stallguardInterrupt s =
     (case stepper s of
        None \<Rightarrow> Inl (NullDereference, s)
      | Some e \<Rightarrow>
          Inr (s\<lparr>stepper := Some (forceStop e), serial := serial s @ [''[I] Motor stalled'']\<rparr>))"

definition loadPositions :: "motor_state \<Rightarrow> crash + motor_state" where
  "loadPositions s =
     (let m = getInt ''maxPos'' 50000 (memory s);
          c = getInt ''currPos'' 0 (memory s)
      in case stepper s of
           None \<Rightarrow> Inl (NullDereference, s\<lparr>maxPos := m, currPos := c\<rparr>)
         | Some e \<Rightarrow> Inr (s\<lparr>maxPos := m, currPos := c, stepper := Some (setCurrentPosition c e)\<rparr>))"

text \<open>
  \<open>motorSetup\<close>: the configuration of the pins and of the driver chip is left out (it
  touches no variable of the controller); \<open>attached\<close> is what
  \<open>engine.stepperConnectToPin(STEP_PIN)\<close> returns.
\<close>

definition motorSetup :: "motor_settings \<Rightarrow> engine option \<Rightarrow> motor_state \<Rightarrow> crash + motor_state" where
  "motorSetup cfg attached s =
     (let s1 =
        (case attached of
           Some e \<Rightarrow>
             s\<lparr>stepper := Some
                 (called (SetDelayToDisable 5)
                 (called (SetDelayToEnable 50)
                 (called (SetAutoEnable True)
                 (setAcceleration (acceleration cfg)
                 (setSpeedInHz (max_speed cfg)
                 (called SetDirectionPin
                 (called SetEnablePin e)))))))\<rparr>
         | None \<Rightarrow>
             s\<lparr>stepper := None,
               serial := serial s @
                 [''[E] Please use a different GPIO pin. The current pin is not compatible..'']\<rparr>)
      in loadPositions s1)"

definition percentToSteps :: "int \<Rightarrow> int \<Rightarrow> fault + int" where
  "percentToSteps percent mx =
     (let steps = to_float (to_double
                    (to_float (to_float (of_int percent) * to_float (of_int mx)) / 100))
      in cast_int (c_round steps))"

definition motorMoveTo :: "int \<Rightarrow> motor_state \<Rightarrow> crash + motor_state" where
  "motorMoveTo newPos s =
     (case stepper s of
        None \<Rightarrow> Inl (NullDereference, s)
      | Some e \<Rightarrow>
          let e1 =
            (if (newPos < targetPos e \<and> getCurrentPosition e < targetPos e)
                \<or> (newPos > targetPos e \<and> getCurrentPosition e > targetPos e)
             then forceStop e else e)
          in if newPos \<noteq> getCurrentPosition e1 \<and> newPos \<le> maxPos s
             then Inr (s\<lparr>stepper := Some (moveTo newPos e1), isMotorRunning := True\<rparr>)
             else Inr (s\<lparr>stepper := Some e1\<rparr>))"

definition motorMove :: "int \<Rightarrow> motor_state \<Rightarrow> crash + motor_state" where
  "motorMove percent s =
     (case percentToSteps percent (maxPos s) of
        Inl f \<Rightarrow> Inl (f, s)
      | Inr newPos \<Rightarrow> motorMoveTo newPos s)"

definition motorMin :: "motor_state \<Rightarrow> crash + motor_state" where
  "motorMin s = motorMoveTo 0 s"

definition motorMax :: "motor_state \<Rightarrow> crash + motor_state" where
  "motorMax s = motorMoveTo (maxPos s) s"

definition motorSetMax :: "motor_settings \<Rightarrow> motor_state \<Rightarrow> crash + motor_state" where
  "motorSetMax cfg s =
     (case stepper s of
        None \<Rightarrow> Inl (NullDereference, s\<lparr>isSetMax := True\<rparr>)
      | Some e \<Rightarrow>
          motorMoveTo 2147483646
            (s\<lparr>isSetMax := True,
               stepper := Some (setSpeedInHz (c_div (max_speed cfg) 4) e),
               maxPos := 2147483646\<rparr>))"

definition motorSetMin :: "motor_settings \<Rightarrow> motor_state \<Rightarrow> crash + motor_state" where
  "motorSetMin cfg s =
     (case stepper s of
        None \<Rightarrow> Inl (NullDereference, s\<lparr>isSetMin := True\<rparr>)
      | Some e \<Rightarrow>
          let e1 = setSpeedInHz (c_div (max_speed cfg) 4) e
          in motorMoveTo 0
               (s\<lparr>isSetMin := True,
                  prevPos := getCurrentPosition e1,
                  stepper := Some (setCurrentPosition 2147483646 e1)\<rparr>))"

definition motorCurrentPercentage :: "motor_state \<Rightarrow> fault + int" where
  "motorCurrentPercentage s =
     (if currPos s = 0 then Inr 0
      else case float_div (to_float (of_int (currPos s))) (to_float (of_int (maxPos s))) of
             None \<Rightarrow> Inl FloatToIntUndefined
           | Some q \<Rightarrow> cast_int (c_round (to_float (q * to_float 100))))"

definition motorStop :: "motor_state \<Rightarrow> crash + motor_state" where
  "motorStop s =
     (case stepper s of
        None \<Rightarrow> Inl (NullDereference, s)
      | Some e \<Rightarrow> Inr (s\<lparr>stepper := Some (stopMove e)\<rparr>))"

definition motorRun :: "motor_settings \<Rightarrow> motor_state \<Rightarrow> crash + motor_state" where
  "motorRun cfg s =
     (if isMotorRunning s then
        (case stepper s of
           None \<Rightarrow> Inl (NullDereference, s)
         | Some e \<Rightarrow>
             if \<not> isRunning e then
               let s1 = s\<lparr>isMotorRunning := False\<rparr>;
                   (s2, e2) =
                     (if isSetMax s1 then
                        let m = getCurrentPosition e
                        in (s1\<lparr>isSetMax := False, maxPos := m,
                               memory := putInt ''maxPos'' m (memory s1)\<rparr>,
                            setSpeedInHz (max_speed cfg) e)
                      else if isSetMin s1 then
                        let distanceTraveled = wrap32 (2147483646 - getCurrentPosition e)
                        in (s1\<lparr>isSetMin := False,
                               maxPos := wrap32 (wrap32 (maxPos s1 + distanceTraveled) - prevPos s1)\<rparr>,
                            setSpeedInHz (max_speed cfg) (setCurrentPosition 0 e))
                      else (s1, e));
                   c = getCurrentPosition e2;
                   s3 = s2\<lparr>stepper := Some e2, currPos := c,
                          memory := putInt ''currPos'' c (memory s2)\<rparr>
               in (case motorCurrentPercentage s3 of
                     Inl f \<Rightarrow> Inl (f, s3)
                   | Inr p \<Rightarrow> Inr (s3\<lparr>mqtt := mqtt s3 @ [p]\<rparr>))
             else Inr s)
      else Inr s)"

subsection \<open>The environment\<close>

text \<open>
  Between two calls of the controller the pulse generator moves the motor:
  \<open>engineAdvance p\<close> is the motor on its way, now at \<open>p\<close>; \<open>engineArrive\<close> is
  the motor coming to rest at its target.
\<close>

definition engineAdvance :: "int \<Rightarrow> motor_state \<Rightarrow> motor_state" where
  "engineAdvance p s = s\<lparr>stepper := map_option (\<lambda>e. e\<lparr>position := p\<rparr>) (stepper s)\<rparr>"

definition engineArrive :: "motor_state \<Rightarrow> motor_state" where
  "engineArrive s =
     s\<lparr>stepper := map_option (\<lambda>e. e\<lparr>position := target e, running := False\<rparr>) (stepper s)\<rparr>"

text \<open>Sequencing of two steps, the second one skipped after a fault.\<close>

definition and_then :: "crash + 'a \<Rightarrow> ('a \<Rightarrow> crash + 'b) \<Rightarrow> crash + 'b" where
  "and_then r f = (case r of Inl x \<Rightarrow> Inl x | Inr a \<Rightarrow> f a)"

text \<open>What a step leaves in one variable, and the calls the engine has received.\<close>

definition outcome :: "(motor_state \<Rightarrow> 'a) \<Rightarrow> crash + motor_state \<Rightarrow> 'a option" where
  "outcome f r = (case r of Inl x \<Rightarrow> None | Inr s \<Rightarrow> Some (f s))"

definition issued :: "motor_state \<Rightarrow> engine_call list" where
  "issued s = (case stepper s of None \<Rightarrow> [] | Some e \<Rightarrow> calls e)"

text \<open>
  A freshly attached engine at rest, the state of the controller before
  \<open>motorSetup\<close> with an empty store, and sample settings.
\<close>

definition example_settings :: motor_settings where
  "example_settings = \<lparr>max_speed = 30000, acceleration = 10000\<rparr>"

definition idle_engine :: engine where
  "idle_engine = \<lparr>position = 0, target = 0, running = False, speedHz = 0, accel = 0, calls = []\<rparr>"

definition boot_state :: motor_state where
  "boot_state =
     \<lparr>stepper = None, memory = \<lparr>store = Map.empty, writes = []\<rparr>,
      maxPos = 0, currPos = 0, prevPos = 0,
      isSetMax = False, isSetMin = False, isMotorRunning = False,
      serial = [], mqtt = []\<rparr>"

text \<open>
  The run of a \<open>SetMax\<close> calibration from a fresh start up to the stall: set-up,
  \<open>motorSetMax\<close>, the motor driving to the raw position 48731, and the stall interrupt
  there. \<open>setMax_stalled\<close> is the state this run ends in, which the next poll finds.
\<close>

definition setMax_stall_run :: "crash + motor_state" where
  "setMax_stall_run =
     and_then (and_then (and_then
       (motorSetup example_settings (Some idle_engine) boot_state)
       (motorSetMax example_settings))
       (\<lambda>s. Inr (engineAdvance 48731 s)))
       stallguardInterrupt"

definition setMax_stalled_engine :: engine where
  "setMax_stalled_engine =
     \<lparr>position = 48731, target = 2147483646, running = False, speedHz = 7500, accel = 10000,
      calls = [SetEnablePin, SetDirectionPin, SetSpeedInHz 30000, SetAcceleration 10000,
               SetAutoEnable True, SetDelayToEnable 50, SetDelayToDisable 5,
               SetCurrentPosition 0, SetSpeedInHz 7500, MoveTo 2147483646, ForceStop]\<rparr>"

definition setMax_stalled :: motor_state where
  "setMax_stalled =
     \<lparr>stepper = Some setMax_stalled_engine, memory = \<lparr>store = Map.empty, writes = []\<rparr>,
      maxPos = 2147483646, currPos = 0, prevPos = 0,
      isSetMax = True, isSetMin = False, isMotorRunning = True,
      serial = [''[I] Motor stalled''], mqtt = []\<rparr>"

text \<open>
  The run of a \<open>SetMin\<close> calibration: the motor at rest at 1200 with \<open>maxPos = 50000\<close>,
  \<open>motorSetMin\<close>, the motor driving 1500 steps down from the sentinel, and the stall
  interrupt there. \<open>setMin_stalled\<close> is the state this run ends in.
\<close>

definition setMin_begin_engine :: engine where
  "setMin_begin_engine =
     \<lparr>position = 1200, target = 1200, running = False, speedHz = 30000, accel = 10000,
      calls = []\<rparr>"

definition setMin_begin :: motor_state where
  "setMin_begin =
     \<lparr>stepper = Some setMin_begin_engine, memory = \<lparr>store = Map.empty, writes = []\<rparr>,
      maxPos = 50000, currPos = 1200, prevPos = 0,
      isSetMax = False, isSetMin = False, isMotorRunning = False,
      serial = [], mqtt = []\<rparr>"

definition setMin_stall_run :: "crash + motor_state" where
  "setMin_stall_run =
     and_then (and_then
       (motorSetMin example_settings setMin_begin)
       (\<lambda>s. Inr (engineAdvance 2147482146 s)))
       stallguardInterrupt"

definition setMin_stalled_engine :: engine where
  "setMin_stalled_engine =
     \<lparr>position = 2147482146, target = 0, running = False, speedHz = 7500, accel = 10000,
      calls = [SetSpeedInHz 7500, SetCurrentPosition 2147483646, MoveTo 0, ForceStop]\<rparr>"

definition setMin_stalled :: motor_state where
  "setMin_stalled =
     \<lparr>stepper = Some setMin_stalled_engine, memory = \<lparr>store = Map.empty, writes = []\<rparr>,
      maxPos = 50000, currPos = 1200, prevPos = 1200,
      isSetMax = False, isSetMin = True, isMotorRunning = True,
      serial = [''[I] Motor stalled''], mqtt = []\<rparr>"

text \<open>
  States for single calls: the stored position \<open>c\<close> with the maximum \<open>m\<close>; and a
  controller whose engine failed to attach, with a move registered.
\<close>

definition percent_state :: "int \<Rightarrow> int \<Rightarrow> motor_state" where
  "percent_state c m = boot_state\<lparr>currPos := c, maxPos := m\<rparr>"

definition null_stepper_state :: motor_state where
  "null_stepper_state = boot_state\<lparr>isMotorRunning := True\<rparr>"

text \<open>
  The controller after \<open>motorSetup\<close> on an empty store (\<open>ready_state\<close>), and the
  move to 50 percent from there: under way at 10000, arrived at 25000 before the poll,
  and after the poll.
\<close>

definition ready_engine :: engine where
  "ready_engine =
     \<lparr>position = 0, target = 0, running = False, speedHz = 30000, accel = 10000,
      calls = [SetEnablePin, SetDirectionPin, SetSpeedInHz 30000, SetAcceleration 10000,
               SetAutoEnable True, SetDelayToEnable 50, SetDelayToDisable 5,
               SetCurrentPosition 0]\<rparr>"

definition ready_state :: motor_state where
  "ready_state =
     \<lparr>stepper = Some ready_engine, memory = \<lparr>store = Map.empty, writes = []\<rparr>,
      maxPos = 50000, currPos = 0, prevPos = 0,
      isSetMax = False, isSetMin = False, isMotorRunning = False,
      serial = [], mqtt = []\<rparr>"

definition half_move_run :: "crash + motor_state" where
  "half_move_run =
     and_then (and_then
       (motorSetup example_settings (Some idle_engine) boot_state)
       (motorMove 50))
       (\<lambda>s. Inr (engineArrive s))"

definition half_move_underway_engine :: engine where
  "half_move_underway_engine =
     ready_engine\<lparr>position := 10000, target := 25000, running := True,
                  calls := calls ready_engine @ [MoveTo 25000]\<rparr>"

definition half_move_underway :: motor_state where
  "half_move_underway =
     ready_state\<lparr>stepper := Some half_move_underway_engine, isMotorRunning := True\<rparr>"

definition half_move_arrived_engine :: engine where
  "half_move_arrived_engine =
     ready_engine\<lparr>position := 25000, target := 25000,
                  calls := calls ready_engine @ [MoveTo 25000]\<rparr>"

definition half_move_arrived :: motor_state where
  "half_move_arrived =
     ready_state\<lparr>stepper := Some half_move_arrived_engine, isMotorRunning := True\<rparr>"


text \<open>The state after the poll that follows the stall at 48731.\<close>

definition setMax_committed :: motor_state where
  "setMax_committed =
     setMax_stalled\<lparr>stepper := Some (setSpeedInHz 30000 setMax_stalled_engine),
        memory := \<lparr>store = [''maxPos'' \<mapsto> 48731, ''currPos'' \<mapsto> 48731],
                    writes = [(''maxPos'', 48731), (''currPos'', 48731)]\<rparr>,
        maxPos := 48731, currPos := 48731, isSetMax := False, isMotorRunning := False,
        mqtt := [100]\<rparr>"

text \<open>
  The two calibration runs just before the stall interrupt: the motor still running, at
  48731 in the \<open>SetMax\<close> run and 1500 steps below the sentinel in the \<open>SetMin\<close> run.
\<close>

definition setMax_underway_engine :: engine where
  "setMax_underway_engine =
     \<lparr>position = 48731, target = 2147483646, running = True, speedHz = 7500, accel = 10000,
      calls = [SetEnablePin, SetDirectionPin, SetSpeedInHz 30000, SetAcceleration 10000,
               SetAutoEnable True, SetDelayToEnable 50, SetDelayToDisable 5,
               SetCurrentPosition 0, SetSpeedInHz 7500, MoveTo 2147483646]\<rparr>"

definition setMax_underway :: motor_state where
  "setMax_underway =
     \<lparr>stepper = Some setMax_underway_engine, memory = \<lparr>store = Map.empty, writes = []\<rparr>,
      maxPos = 2147483646, currPos = 0, prevPos = 0,
      isSetMax = True, isSetMin = False, isMotorRunning = True,
      serial = [], mqtt = []\<rparr>"

definition setMin_underway_engine :: engine where
  "setMin_underway_engine =
     \<lparr>position = 2147482146, target = 0, running = True, speedHz = 7500, accel = 10000,
      calls = [SetSpeedInHz 7500, SetCurrentPosition 2147483646, MoveTo 0]\<rparr>"

definition setMin_underway :: motor_state where
  "setMin_underway =
     \<lparr>stepper = Some setMin_underway_engine, memory = \<lparr>store = Map.empty, writes = []\<rparr>,
      maxPos = 50000, currPos = 1200, prevPos = 1200,
      isSetMax = False, isSetMin = True, isMotorRunning = True,
      serial = [], mqtt = []\<rparr>"

text \<open>The move to 100 percent from \<open>ready_state\<close>, under way at 25000.\<close>

definition full_move_underway_engine :: engine where
  "full_move_underway_engine =
     ready_engine\<lparr>position := 25000, target := 50000, running := True,
                  calls := calls ready_engine @ [MoveTo 50000]\<rparr>"

definition full_move_underway :: motor_state where
  "full_move_underway =
     ready_state\<lparr>stepper := Some full_move_underway_engine, isMotorRunning := True\<rparr>"

text \<open>
  Runs in which the two calibrations overlap, each up to the stall of the last move and
  with the state this leaves for the poll. \<open>setMax_over_setMin\<close>: \<open>motorSetMin\<close>, 1500
  steps down, then \<open>motorSetMax\<close>, and the stall of its move at 2147483000.
  \<open>setMin_over_setMax\<close>: \<open>motorSetMax\<close>, 1000 steps up, then \<open>motorSetMin\<close>, and the
  stall of its move 1500 steps below the sentinel.
\<close>

definition setMax_over_setMin_run :: "crash + motor_state" where
  "setMax_over_setMin_run =
     and_then (and_then (and_then (and_then
       (motorSetMin example_settings ready_state)
       (\<lambda>s. Inr (engineAdvance 2147482146 s)))
       (motorSetMax example_settings))
       (\<lambda>s. Inr (engineAdvance 2147483000 s)))
       stallguardInterrupt"

definition setMax_over_setMin_engine :: engine where
  "setMax_over_setMin_engine =
     \<lparr>position = 2147483000, target = 2147483646, running = False, speedHz = 7500,
      accel = 10000,
      calls = calls ready_engine @
        [SetSpeedInHz 7500, SetCurrentPosition 2147483646, MoveTo 0,
         SetSpeedInHz 7500, ForceStop, MoveTo 2147483646, ForceStop]\<rparr>"

definition setMax_over_setMin_stalled :: motor_state where
  "setMax_over_setMin_stalled =
     \<lparr>stepper = Some setMax_over_setMin_engine,
      memory = \<lparr>store = Map.empty, writes = []\<rparr>,
      maxPos = 2147483646, currPos = 0, prevPos = 0,
      isSetMax = True, isSetMin = True, isMotorRunning = True,
      serial = [''[I] Motor stalled''], mqtt = []\<rparr>"

definition setMin_over_setMax_run :: "crash + motor_state" where
  "setMin_over_setMax_run =
     and_then (and_then (and_then (and_then
       (motorSetMax example_settings ready_state)
       (\<lambda>s. Inr (engineAdvance 1000 s)))
       (motorSetMin example_settings))
       (\<lambda>s. Inr (engineAdvance 2147482146 s)))
       stallguardInterrupt"

definition setMin_over_setMax_engine :: engine where
  "setMin_over_setMax_engine =
     \<lparr>position = 2147482146, target = 0, running = False, speedHz = 7500, accel = 10000,
      calls = calls ready_engine @
        [SetSpeedInHz 7500, MoveTo 2147483646,
         SetSpeedInHz 7500, SetCurrentPosition 2147483646, MoveTo 0, ForceStop]\<rparr>"

definition setMin_over_setMax_stalled :: motor_state where
  "setMin_over_setMax_stalled =
     \<lparr>stepper = Some setMin_over_setMax_engine,
      memory = \<lparr>store = Map.empty, writes = []\<rparr>,
      maxPos = 2147483646, currPos = 0, prevPos = 1000,
      isSetMax = True, isSetMin = True, isMotorRunning = True,
      serial = [''[I] Motor stalled''], mqtt = []\<rparr>"

text \<open>
  A run that leaves a negative \<open>maxPos\<close>: the move to -50 percent, under way at -24000,
  then \<open>motorSetMax\<close>, the stall of its move on the spot, and the poll.
\<close>

definition negative_max_run :: "crash + motor_state" where
  "negative_max_run =
     and_then (and_then (and_then (and_then
       (motorMove (- 50) ready_state)
       (\<lambda>s. Inr (engineAdvance (- 24000) s)))
       (motorSetMax example_settings))
       stallguardInterrupt)
       (motorRun example_settings)"

definition negative_max_engine :: engine where
  "negative_max_engine =
     \<lparr>position = - 24000, target = 2147483646, running = False, speedHz = 30000,
      accel = 10000,
      calls = calls ready_engine @
        [MoveTo (- 25000), SetSpeedInHz 7500, ForceStop, MoveTo 2147483646, ForceStop,
         SetSpeedInHz 30000]\<rparr>"

definition negative_max_state :: motor_state where
  "negative_max_state =
     \<lparr>stepper = Some negative_max_engine,
      memory = \<lparr>store = [''maxPos'' \<mapsto> - 24000, ''currPos'' \<mapsto> - 24000],
                 writes = [(''maxPos'', - 24000), (''currPos'', - 24000)]\<rparr>,
      maxPos = - 24000, currPos = - 24000, prevPos = 0,
      isSetMax = False, isSetMin = False, isMotorRunning = False,
      serial = [''[I] Motor stalled''], mqtt = [100]\<rparr>"

section \<open>Properties of the rounding\<close>

text \<open>Rounding to a fixed number of significant bits never turns a non-zero value into 0.\<close>

lemma round_ties_even_nonzero:
  assumes "1 \<le> \<bar>y\<bar>"
  shows "round_ties_even y \<noteq> 0"
proof (cases "0 \<le> y")
  case True
  with assms have "1 \<le> y" by simp
  then have "1 \<le> \<lfloor>y\<rfloor>" by simp
  then have "\<lfloor>y\<rfloor> \<noteq> 0 \<and> \<lfloor>y\<rfloor> + 1 \<noteq> 0" by linarith
  then show ?thesis by (simp add: round_ties_even_def Let_def)
next
  case False
  with assms have y: "y \<le> - 1" by simp
  then have fl: "\<lfloor>y\<rfloor> \<le> - 1" by (simp add: floor_le_iff)
  show ?thesis
  proof (cases "\<lfloor>y\<rfloor> = - 1")
    case True
    with y have "y - of_int \<lfloor>y\<rfloor> < 1 / 2" by simp
    with True show ?thesis by (simp add: round_ties_even_def Let_def)
  next
    case False
    with fl have "\<lfloor>y\<rfloor> \<le> - 2" by linarith
    then have "\<lfloor>y\<rfloor> \<noteq> 0 \<and> \<lfloor>y\<rfloor> + 1 \<noteq> 0" by linarith
    then show ?thesis by (simp add: round_ties_even_def Let_def)
  qed
qed

lemma binary_exponent_le:
  assumes "x \<noteq> 0"
  shows "2 powi (binary_exponent x) \<le> \<bar>x\<bar>"
proof -
  obtain a b where q: "quotient_of \<bar>x\<bar> = (a, b)" by (cases "quotient_of \<bar>x\<bar>")
  from q have b: "0 < b" by (rule quotient_of_denom_pos)
  from q have x: "\<bar>x\<bar> = of_int a / of_int b" by (rule quotient_of_div)
  from assms have "0 < \<bar>x\<bar>" by simp
  with x b have a: "0 < a" by (simp add: zero_less_divide_iff)
  let ?n = "bitlen a - bitlen b"
  have la: "2 ^ nat (bitlen a - 1) \<le> a" using bitlen_bounds [OF a] by simp
  have lb: "b < 2 ^ nat (bitlen b)" using bitlen_bounds [OF b] by simp
  have ba: "1 \<le> bitlen a" using a by (simp add: bitlen_alt_def)
  have bb: "1 \<le> bitlen b" using b by (simp add: bitlen_alt_def)
  have low: "(2::rat) powi (?n - 1) \<le> \<bar>x\<bar>"
  proof -
    have "(2::rat) powi (?n - 1) = 2 powi (bitlen a - 1) / 2 powi (bitlen b)"
      by (simp add: power_int_diff)
    also have "\<dots> = 2 ^ nat (bitlen a - 1) / 2 ^ nat (bitlen b)"
      using ba bb by (simp add: power_int_def)
    also have "\<dots> \<le> of_int a / 2 ^ nat (bitlen b)"
    proof -
      have "(2::rat) ^ nat (bitlen a - 1) \<le> of_int a"
        using la by (metis of_int_le_iff of_int_numeral of_int_power)
      then show ?thesis by (simp add: divide_right_mono)
    qed
    also have "\<dots> \<le> of_int a / of_int b"
    proof -
      have "(of_int b :: rat) \<le> 2 ^ nat (bitlen b)"
        using lb by (metis less_imp_le of_int_le_iff of_int_numeral of_int_power)
      then show ?thesis using a b by (simp add: frac_le)
    qed
    finally show ?thesis using x by simp
  qed
  show ?thesis
    using low q by (simp add: binary_exponent_def Let_def)
qed

lemma round_to_precision_nonzero:
  assumes "x \<noteq> 0" and "0 < p"
  shows "round_to_precision p x \<noteq> 0"
proof -
  let ?e = "binary_exponent x"
  let ?q = "(2::rat) powi (?e - int p + 1)"
  have qpos: "0 < ?q" by simp
  have "(1::rat) \<le> 2 powi (int p - 1)"
    using assms(2) by (simp add: one_le_power_int)
  also have "\<dots> = 2 powi ?e / ?q"
    by (simp add: power_int_diff power_int_add)
  also have "\<dots> \<le> \<bar>x\<bar> / ?q"
    using binary_exponent_le [OF assms(1)] qpos by (simp add: divide_right_mono)
  also have "\<dots> = \<bar>x / ?q\<bar>" by simp
  finally have "round_ties_even (x / ?q) \<noteq> 0" by (rule round_ties_even_nonzero)
  then show ?thesis using assms(1) by (simp add: round_to_precision_def Let_def)
qed

lemma to_float_eq_0_iff: "to_float x = 0 \<longleftrightarrow> x = 0"
  using round_to_precision_nonzero [of x 24]
  by (auto simp: to_float_def round_to_precision_def)

lemma to_float_1: "to_float 1 = 1"
  by code_simp

lemma to_float_100: "to_float 100 = 100"
  by code_simp

lemma to_float_0: "to_float 0 = 0"
  by (simp add: to_float_def round_to_precision_def)

lemma c_round_100: "c_round 100 = 100"
  by code_simp

section \<open>Properties of the controller\<close>

lemmas engine_defs = getCurrentPosition_def targetPos_def isRunning_def called_def forceStop_def
  stopMove_def moveTo_def setCurrentPosition_def setSpeedInHz_def setAcceleration_def

lemma motorCurrentPercentage_full:
  assumes "currPos s = maxPos s"
  shows "motorCurrentPercentage s = Inr (if maxPos s = 0 then 0 else 100)"
proof (cases "maxPos s = 0")
  case True
  with assms show ?thesis by (simp add: motorCurrentPercentage_def)
next
  case False
  then have nz: "to_float (of_int (maxPos s)) \<noteq> 0" by (simp add: to_float_eq_0_iff)
  then have "float_div (to_float (of_int (maxPos s))) (to_float (of_int (maxPos s))) = Some 1"
    by (simp add: float_div_def to_float_1)
  with False assms show ?thesis
    by (simp add: motorCurrentPercentage_def to_float_100 c_round_100 cast_int_def
        in_int32_def INT_MIN_def INT_MAX_def)
qed

lemma motorCurrentPercentage_zero: "currPos s = 0 \<Longrightarrow> motorCurrentPercentage s = Inr 0"
  by (simp add: motorCurrentPercentage_def)

lemma setMax_stall_run_state: "setMax_stall_run = Inr setMax_stalled"
  by (simp add: setMax_stall_run_def setMax_stalled_def setMax_stalled_engine_def and_then_def
      motorSetup_def loadPositions_def getInt_def motorSetMax_def motorMoveTo_def
      stallguardInterrupt_def engineAdvance_def boot_state_def idle_engine_def
      example_settings_def c_div_def engine_defs Let_def)

subsection \<open>Runs with overlapping calibrations\<close>

lemma setMax_over_setMin_run_state: "setMax_over_setMin_run = Inr setMax_over_setMin_stalled"
  by (simp add: setMax_over_setMin_run_def setMax_over_setMin_stalled_def
      setMax_over_setMin_engine_def and_then_def motorSetMin_def motorSetMax_def
      motorMoveTo_def stallguardInterrupt_def engineAdvance_def ready_state_def
      ready_engine_def example_settings_def c_div_def engine_defs Let_def)

lemma setMin_over_setMax_run_state: "setMin_over_setMax_run = Inr setMin_over_setMax_stalled"
  by (simp add: setMin_over_setMax_run_def setMin_over_setMax_stalled_def
      setMin_over_setMax_engine_def and_then_def motorSetMin_def motorSetMax_def
      motorMoveTo_def stallguardInterrupt_def engineAdvance_def ready_state_def
      ready_engine_def example_settings_def c_div_def engine_defs Let_def)

lemma motorRun_setMax:
  assumes "stepper s = Some e" and "isMotorRunning s" and "\<not> isRunning e" and "isSetMax s"
  shows "\<exists>t. motorRun cfg s = Inr t
           \<and> stepper t = Some (setSpeedInHz (max_speed cfg) e)
           \<and> maxPos t = getCurrentPosition e
           \<and> writes (memory t) = writes (memory s) @
                [(''maxPos'', getCurrentPosition e), (''currPos'', getCurrentPosition e)]
           \<and> store (memory t) ''maxPos'' = Some (getCurrentPosition e)
           \<and> \<not> isSetMax t \<and> isSetMin t = isSetMin s \<and> \<not> isMotorRunning t"
proof -
  let ?r = "getCurrentPosition e"
  let ?s3 = "s\<lparr>isMotorRunning := False, isSetMax := False, maxPos := ?r,
               memory := putInt ''maxPos'' ?r (memory s),
               stepper := Some (setSpeedInHz (max_speed cfg) e), currPos := ?r,
               memory := putInt ''currPos'' ?r (putInt ''maxPos'' ?r (memory s))\<rparr>"
  have pct: "motorCurrentPercentage ?s3 = Inr (if ?r = 0 then 0 else 100)"
    using motorCurrentPercentage_full [of ?s3] by simp
  have run: "motorRun cfg s = Inr (?s3\<lparr>mqtt := mqtt s @ [if ?r = 0 then 0 else 100]\<rparr>)"
    using assms pct by (simp add: motorRun_def Let_def engine_defs)
  show ?thesis
    unfolding run by (simp add: putInt_def engine_defs)
qed

subsection \<open>Completion of a \<open>SetMax\<close> calibration\<close>

text \<open>
  Claim C4, as stated, fails when a \<open>SetMin\<close> calibration was started before the
  \<open>SetMax\<close> one and has not completed: the poll that finds the \<open>SetMax\<close> move at rest
  (here stalled at 2147483000) commits \<open>maxPos\<close> and clears \<open>isSetMax\<close>, and leaves
  \<open>isSetMin\<close> set, so a calibration is still active.
\<close>

theorem setMax_leaves_setMin_pending:
  "setMax_over_setMin_run = Inr setMax_over_setMin_stalled
   \<and> isSetMax setMax_over_setMin_stalled \<and> isSetMin setMax_over_setMin_stalled
   \<and> isMotorRunning setMax_over_setMin_stalled
   \<and> outcome maxPos (motorRun example_settings setMax_over_setMin_stalled) = Some 2147483000
   \<and> outcome isSetMax (motorRun example_settings setMax_over_setMin_stalled) = Some False
   \<and> outcome isSetMin (motorRun example_settings setMax_over_setMin_stalled) = Some True"
  unfolding setMax_over_setMin_run_state
  by (simp add: motorRun_def outcome_def setMax_over_setMin_stalled_def
      setMax_over_setMin_engine_def motorCurrentPercentage_full putInt_def engine_defs Let_def)

text \<open>
  Claim C4, amended. When the poll finds the motor of a \<open>SetMax\<close> calibration at rest, at
  whatever position \<open>r\<close> it reached, \<open>motorRun\<close> returns with \<open>maxPos = r\<close>, has
  written the new \<open>maxPos\<close> to the store (followed by the write of \<open>currPos\<close>), has
  set the speed of the engine to \<open>max_speed\<close> again, and has cleared \<open>isSetMax\<close>;
  \<open>isSetMin\<close> is left as it was, so that no calibration is active any more exactly when
  no \<open>SetMin\<close> calibration was pending.
\<close>

theorem setMax_completion:
  assumes "stepper s = Some e" and "isMotorRunning s" and "\<not> isRunning e"
    and "isSetMax s"
  shows "\<exists>s' e'. motorRun cfg s = Inr s' \<and> stepper s' = Some e'
           \<and> maxPos s' = getCurrentPosition e
           \<and> writes (memory s') = writes (memory s) @
                [(''maxPos'', getCurrentPosition e), (''currPos'', getCurrentPosition e)]
           \<and> store (memory s') ''maxPos'' = Some (getCurrentPosition e)
           \<and> speedHz e' = max_speed cfg
           \<and> calls e' = calls e @ [SetSpeedInHz (max_speed cfg)]
           \<and> \<not> isSetMax s' \<and> isSetMin s' = isSetMin s \<and> \<not> isMotorRunning s'"
proof -
  let ?r = "getCurrentPosition e"
  let ?s3 = "s\<lparr>isMotorRunning := False, isSetMax := False, maxPos := ?r,
               memory := putInt ''maxPos'' ?r (memory s),
               stepper := Some (setSpeedInHz (max_speed cfg) e), currPos := ?r,
               memory := putInt ''currPos'' ?r (putInt ''maxPos'' ?r (memory s))\<rparr>"
  have pct: "motorCurrentPercentage ?s3 = Inr (if ?r = 0 then 0 else 100)"
    using motorCurrentPercentage_full [of ?s3] by simp
  have run: "motorRun cfg s = Inr (?s3\<lparr>mqtt := mqtt s @ [if ?r = 0 then 0 else 100]\<rparr>)"
    using assms pct by (simp add: motorRun_def Let_def engine_defs)
  show ?thesis
    unfolding run by (simp add: putInt_def engine_defs)
qed

text \<open>
  The run that stalls at the raw position 48731 commits \<open>maxPos = 48731\<close>; no
  \<open>SetMin\<close> calibration was pending, and none is active afterwards.
\<close>

theorem setMax_completion_witness:
  "setMax_stall_run = Inr setMax_stalled
   \<and> stepper setMax_stalled = Some setMax_stalled_engine
   \<and> isMotorRunning setMax_stalled \<and> \<not> isRunning setMax_stalled_engine
   \<and> isSetMax setMax_stalled \<and> \<not> isSetMin setMax_stalled
   \<and> (\<exists>s' e'. motorRun example_settings setMax_stalled = Inr s' \<and> stepper s' = Some e'
         \<and> maxPos s' = 48731
         \<and> writes (memory s') = [(''maxPos'', 48731), (''currPos'', 48731)]
         \<and> store (memory s') ''maxPos'' = Some 48731
         \<and> speedHz e' = 30000
         \<and> \<not> isSetMax s' \<and> \<not> isSetMin s' \<and> \<not> isMotorRunning s')"
proof -
  have h1: "stepper setMax_stalled = Some setMax_stalled_engine"
    by (simp add: setMax_stalled_def)
  have h2: "isMotorRunning setMax_stalled" by (simp add: setMax_stalled_def)
  have h3: "\<not> isRunning setMax_stalled_engine"
    by (simp add: setMax_stalled_engine_def isRunning_def)
  have h4: "isSetMax setMax_stalled" by (simp add: setMax_stalled_def)
  have h5: "\<not> isSetMin setMax_stalled" by (simp add: setMax_stalled_def)
  have pos: "getCurrentPosition setMax_stalled_engine = 48731"
    by (simp add: setMax_stalled_engine_def getCurrentPosition_def)
  have mem: "writes (memory setMax_stalled) = []" by (simp add: setMax_stalled_def)
  have spd: "max_speed example_settings = 30000" by (simp add: example_settings_def)
  from setMax_completion [OF h1 h2 h3 h4, of example_settings]
  obtain s' e' where "motorRun example_settings setMax_stalled = Inr s'"
    and "stepper s' = Some e'" and "maxPos s' = 48731"
    and "writes (memory s') = [(''maxPos'', 48731), (''currPos'', 48731)]"
    and "store (memory s') ''maxPos'' = Some 48731" and "speedHz e' = 30000"
    and "\<not> isSetMax s'" and "isSetMin s' = isSetMin setMax_stalled"
    and "\<not> isMotorRunning s'"
    unfolding pos mem spd by auto
  then show ?thesis using setMax_stall_run_state h1 h2 h3 h4 h5 by blast
qed

subsection \<open>Wrap-around\<close>

lemma wrap32_id: "in_int32 x \<Longrightarrow> wrap32 x = x"
  by (simp add: wrap32_def in_int32_def INT_MIN_def INT_MAX_def)

lemma wrap32_add_wrap32: "wrap32 (a + wrap32 b) = wrap32 (a + b)"
proof -
  have "(a + ((b + 2147483648) mod 4294967296 - 2147483648) + 2147483648) mod 4294967296
        = (a + (b + 2147483648) mod 4294967296) mod 4294967296" by simp
  also have "\<dots> = (a + (b + 2147483648)) mod 4294967296" by (rule mod_add_right_eq)
  finally show ?thesis by (simp add: wrap32_def add.assoc)
qed

lemma wrap32_diff_wrap32: "wrap32 (wrap32 a - c) = wrap32 (a - c)"
proof -
  have "((a + 2147483648) mod 4294967296 - 2147483648 - c + 2147483648) mod 4294967296
        = ((a + 2147483648) mod 4294967296 - c) mod 4294967296" by simp
  also have "\<dots> = (a + 2147483648 - c) mod 4294967296" by (rule mod_diff_left_eq)
  finally show ?thesis by (simp add: wrap32_def algebra_simps)
qed

lemma wrap32_collapse: "wrap32 (wrap32 (a + wrap32 b) - c) = wrap32 (a + b - c)"
  by (simp add: wrap32_diff_wrap32 wrap32_add_wrap32)

subsection \<open>The \<open>SetMin\<close> calibration\<close>

lemma setMin_stall_run_state: "setMin_stall_run = Inr setMin_stalled"
  by (simp add: setMin_stall_run_def setMin_stalled_def setMin_stalled_engine_def
      setMin_begin_def setMin_begin_engine_def and_then_def motorSetMin_def motorMoveTo_def
      stallguardInterrupt_def engineAdvance_def example_settings_def c_div_def engine_defs
      Let_def)

lemma motorRun_setMin:
  assumes "stepper t = Some d" and "isMotorRunning t" and "\<not> isRunning d"
    and "isSetMin t" and "\<not> isSetMax t"
  shows "\<exists>t' d'. motorRun cfg t = Inr t' \<and> stepper t' = Some d'
           \<and> maxPos t' = wrap32 (maxPos t + (2147483646 - getCurrentPosition d) - prevPos t)
           \<and> getCurrentPosition d' = 0 \<and> currPos t' = 0
           \<and> speedHz d' = max_speed cfg
           \<and> calls d' = calls d @ [SetCurrentPosition 0, SetSpeedInHz (max_speed cfg)]
           \<and> \<not> isSetMin t' \<and> \<not> isSetMax t' \<and> \<not> isMotorRunning t'"
  using assms
  by (simp add: motorRun_def motorCurrentPercentage_def wrap32_collapse engine_defs Let_def)

subsection \<open>The reported percentage\<close>

lemma half_percentage:
  "cast_int (c_round (to_float (to_float (to_float (of_int 25000) / to_float (of_int 50000)) * 100)))
   = Inr 50"
  by code_simp

text \<open>
  Claim C10. \<open>motorCurrentPercentage\<close> returns 0 when \<open>currPos\<close> is 0, whatever
  \<open>maxPos\<close> is. For another \<open>currPos\<close> it returns the rounded value of
  \<open>(float) currPos / (float) maxPos * 100\<close>; nothing on this branch tests \<open>maxPos\<close>,
  and with \<open>maxPos = 0\<close> the division by zero is carried out: its result is no finite
  number, and the cast to \<open>int\<close> is undefined.
\<close>

theorem motorCurrentPercentage_unguarded:
  "(currPos s = 0 \<longrightarrow> motorCurrentPercentage s = Inr 0)
   \<and> (currPos s \<noteq> 0 \<and> maxPos s \<noteq> 0 \<longrightarrow>
        motorCurrentPercentage s =
          cast_int (c_round (to_float
            (to_float (to_float (of_int (currPos s)) / to_float (of_int (maxPos s))) * 100))))
   \<and> (currPos s \<noteq> 0 \<and> maxPos s = 0 \<longrightarrow> motorCurrentPercentage s = Inl FloatToIntUndefined)"
  by (simp add: motorCurrentPercentage_def float_div_def to_float_eq_0_iff to_float_0
      to_float_100)

theorem motorCurrentPercentage_unguarded_witness:
  "motorCurrentPercentage (percent_state 0 0) = Inr 0
   \<and> motorCurrentPercentage (percent_state 0 50000) = Inr 0
   \<and> motorCurrentPercentage (percent_state 25000 50000) = Inr 50
   \<and> motorCurrentPercentage (percent_state 25000 0) = Inl FloatToIntUndefined"
  using motorCurrentPercentage_unguarded [of "percent_state 0 0"]
    motorCurrentPercentage_unguarded [of "percent_state 0 50000"]
    motorCurrentPercentage_unguarded [of "percent_state 25000 50000"]
    motorCurrentPercentage_unguarded [of "percent_state 25000 0"]
    half_percentage
  by (simp add: percent_state_def)

subsection \<open>The null stepper\<close>

text \<open>
  Claim C9. When the engine does not attach, \<open>motorSetup\<close> prints the error, leaves
  \<open>stepper\<close> null and goes on to \<open>loadPositions\<close>; that function reads
  \<open>maxPos\<close> and \<open>currPos\<close> from the store and then calls \<open>setCurrentPosition\<close>
  through the null pointer: \<open>motorSetup\<close> ends in the fault, with the error printed and
  the two values loaded. With a null \<open>stepper\<close>, \<open>motorMoveTo\<close> and \<open>motorStop\<close>
  dereference it without a test, before they do anything else, and so does \<open>motorRun\<close>
  as soon as a move is registered; the two calibration commands set their flag and then
  dereference it, and the stall interrupt dereferences it at once.
\<close>

theorem null_stepper_unchecked:
  "motorSetup cfg None s =
     loadPositions (s\<lparr>stepper := None,
       serial := serial s @
         [''[E] Please use a different GPIO pin. The current pin is not compatible..'']\<rparr>)
   \<and> motorSetup cfg None s =
       Inl (NullDereference,
            s\<lparr>stepper := None,
              serial := serial s @
                [''[E] Please use a different GPIO pin. The current pin is not compatible..''],
              maxPos := getInt ''maxPos'' 50000 (memory s),
              currPos := getInt ''currPos'' 0 (memory s)\<rparr>)
   \<and> (stepper t = None \<longrightarrow>
        loadPositions t =
          Inl (NullDereference,
               t\<lparr>maxPos := getInt ''maxPos'' 50000 (memory t),
                 currPos := getInt ''currPos'' 0 (memory t)\<rparr>)
        \<and> motorMoveTo n t = Inl (NullDereference, t)
        \<and> motorStop t = Inl (NullDereference, t)
        \<and> (isMotorRunning t \<longrightarrow> motorRun cfg t = Inl (NullDereference, t))
        \<and> motorSetMax cfg t = Inl (NullDereference, t\<lparr>isSetMax := True\<rparr>)
        \<and> motorSetMin cfg t = Inl (NullDereference, t\<lparr>isSetMin := True\<rparr>)
        \<and> stallguardInterrupt t = Inl (NullDereference, t))"
  by (simp add: motorSetup_def loadPositions_def motorMoveTo_def motorStop_def motorRun_def
      motorSetMax_def motorSetMin_def stallguardInterrupt_def Let_def)

text \<open>
  On an empty store: the fault leaves the error on the serial port and \<open>maxPos = 50000\<close>
  loaded; the later commands fault with the state untouched.
\<close>

theorem null_stepper_unchecked_witness:
  "stepper null_stepper_state = None \<and> isMotorRunning null_stepper_state
   \<and> motorSetup example_settings None boot_state =
       Inl (NullDereference,
            boot_state\<lparr>serial :=
                [''[E] Please use a different GPIO pin. The current pin is not compatible..''],
              maxPos := 50000\<rparr>)
   \<and> loadPositions null_stepper_state =
       Inl (NullDereference, null_stepper_state\<lparr>maxPos := 50000\<rparr>)
   \<and> motorMoveTo 25000 null_stepper_state = Inl (NullDereference, null_stepper_state)
   \<and> motorStop null_stepper_state = Inl (NullDereference, null_stepper_state)
   \<and> motorRun example_settings null_stepper_state = Inl (NullDereference, null_stepper_state)"
proof -
  have h: "stepper null_stepper_state = None" "isMotorRunning null_stepper_state"
    by (simp_all add: null_stepper_state_def boot_state_def)
  have b: "boot_state\<lparr>stepper := None,
              serial := serial boot_state @
                [''[E] Please use a different GPIO pin. The current pin is not compatible..''],
              maxPos := getInt ''maxPos'' 50000 (memory boot_state),
              currPos := getInt ''currPos'' 0 (memory boot_state)\<rparr>
           = boot_state\<lparr>serial :=
                [''[E] Please use a different GPIO pin. The current pin is not compatible..''],
              maxPos := 50000\<rparr>"
    by (simp add: boot_state_def getInt_def)
  have n: "null_stepper_state\<lparr>maxPos := getInt ''maxPos'' 50000 (memory null_stepper_state),
              currPos := getInt ''currPos'' 0 (memory null_stepper_state)\<rparr>
           = null_stepper_state\<lparr>maxPos := 50000\<rparr>"
    by (simp add: null_stepper_state_def boot_state_def getInt_def)
  from null_stepper_unchecked [of example_settings boot_state null_stepper_state 25000] h
  show ?thesis unfolding b n by blast
qed

subsection \<open>The single commands\<close>

lemma setup_ready: "motorSetup example_settings (Some idle_engine) boot_state = Inr ready_state"
  by (simp add: motorSetup_def loadPositions_def getInt_def boot_state_def idle_engine_def
      example_settings_def ready_state_def ready_engine_def engine_defs Let_def)

lemma percentToSteps_half: "percentToSteps 50 50000 = Inr 25000"
  by code_simp

lemma percentToSteps_double: "percentToSteps 200 50000 = Inr 100000"
  by code_simp

lemma percentToSteps_negative: "percentToSteps (- 50) 50000 = Inr (- 25000)"
  by code_simp



lemma half_move_run_state: "half_move_run = Inr half_move_arrived"
  by (simp add: half_move_run_def setup_ready and_then_def motorMove_def percentToSteps_half
      motorMoveTo_def engineArrive_def half_move_arrived_def half_move_arrived_engine_def
      ready_state_def ready_engine_def
      engine_defs Let_def)


lemma motorMoveTo_attached:
  assumes "stepper s = Some e"
  shows "\<exists>e'. motorMoveTo n s =
             Inr (s\<lparr>stepper := Some e',
                    isMotorRunning :=
                      (isMotorRunning s \<or> (n \<noteq> getCurrentPosition e \<and> n \<le> maxPos s))\<rparr>)
           \<and> calls e' = calls e @
               (if (n < targetPos e \<and> getCurrentPosition e < targetPos e)
                   \<or> (targetPos e < n \<and> targetPos e < getCurrentPosition e)
                then [ForceStop] else []) @
               (if n \<noteq> getCurrentPosition e \<and> n \<le> maxPos s then [MoveTo n] else [])
           \<and> getCurrentPosition e' = getCurrentPosition e"
  using assms by (auto simp: motorMoveTo_def engine_defs Let_def)



lemma motorMoveTo_maxPos:
  "stepper s = Some e \<Longrightarrow> outcome maxPos (motorMoveTo n s) = Some (maxPos s)"
  by (simp add: motorMoveTo_def outcome_def Let_def)




subsection \<open>Loading and persisting the position\<close>



subsection \<open>Where \<open>maxPos\<close> changes\<close>

lemma setMax_stall_poll: "motorRun example_settings setMax_stalled = Inr setMax_committed"
  by (simp add: motorRun_def setMax_stalled_def setMax_stalled_engine_def setMax_committed_def
      example_settings_def motorCurrentPercentage_full putInt_def engine_defs Let_def)

lemma motorRun_maxPos_changed:
  assumes "stepper s = Some e" and "motorRun cfg s = Inr t" and "maxPos t \<noteq> maxPos s"
  shows "isMotorRunning s \<and> \<not> isRunning e \<and> (isSetMax s \<or> isSetMin s)"
  using assms
  by (auto simp: motorRun_def Let_def split: if_splits sum.splits)

text \<open>
  Claim C3, as stated, fails at the start of a \<open>SetMax\<close> calibration:
  \<open>motorSetMax\<close> itself overwrites \<open>maxPos\<close> (50000 before) with 2147483646, so that
  the guard of \<open>motorMoveTo\<close> lets the far target pass, and writes nothing to the store.
\<close>

theorem maxPos_set_at_setMax_start:
  "maxPos ready_state = 50000
   \<and> outcome maxPos (motorSetMax example_settings ready_state) = Some 2147483646
   \<and> outcome isSetMax (motorSetMax example_settings ready_state) = Some True
   \<and> outcome isMotorRunning (motorSetMax example_settings ready_state) = Some True
   \<and> outcome memory (motorSetMax example_settings ready_state) = Some (memory ready_state)
   \<and> writes (memory ready_state) = []"
  by (simp add: motorSetMax_def motorMoveTo_def outcome_def ready_state_def ready_engine_def
      engine_defs Let_def)

text \<open>
  Claim C3, amended. After start-up \<open>maxPos\<close> is changed only by the calibration:
  \<open>motorSetMax\<close> sets it to 2147483646 when the calibration starts, without a write to
  the store, and \<open>motorRun\<close> changes it only on the poll that finds the motor of a
  registered move at rest with a calibration flag set. \<open>motorMoveTo\<close>, \<open>motorMove\<close>,
  \<open>motorStop\<close>, \<open>motorSetMin\<close>, the stall interrupt and the motion of the motor leave it
  as it is. When a \<open>SetMax\<close> calibration completes, the new \<open>maxPos\<close> is the reached
  position and is written to the store at once.
\<close>

theorem maxPos_mutation:
  "(stepper s = Some e \<longrightarrow>
      outcome maxPos (motorMoveTo n s) = Some (maxPos s)
      \<and> (percentToSteps p (maxPos s) = Inr n \<longrightarrow>
             outcome maxPos (motorMove p s) = Some (maxPos s))
      \<and> outcome maxPos (motorStop s) = Some (maxPos s)
      \<and> outcome maxPos (motorSetMin cfg s) = Some (maxPos s)
      \<and> outcome maxPos (stallguardInterrupt s) = Some (maxPos s)
      \<and> outcome maxPos (motorSetMax cfg s) = Some 2147483646
      \<and> outcome memory (motorSetMax cfg s) = Some (memory s)
      \<and> (motorRun cfg s = Inr t \<and> maxPos t \<noteq> maxPos s \<longrightarrow>
             isMotorRunning s \<and> \<not> isRunning e \<and> (isSetMax s \<or> isSetMin s))
      \<and> (isMotorRunning s \<and> \<not> isRunning e \<and> isSetMax s \<longrightarrow>
             (\<exists>t'. motorRun cfg s = Inr t'
                \<and> maxPos t' = getCurrentPosition e
                \<and> writes (memory t') = writes (memory s) @
                     [(''maxPos'', getCurrentPosition e), (''currPos'', getCurrentPosition e)]
                \<and> store (memory t') ''maxPos'' = Some (getCurrentPosition e))))
   \<and> maxPos (engineAdvance q s) = maxPos s \<and> maxPos (engineArrive s) = maxPos s"
proof (intro conjI impI)
  assume att: "stepper s = Some e"
  show "outcome maxPos (motorMoveTo n s) = Some (maxPos s)"
    using att by (rule motorMoveTo_maxPos)
  show "outcome maxPos (motorStop s) = Some (maxPos s)"
    using att by (simp add: motorStop_def outcome_def)
  show "outcome maxPos (motorSetMin cfg s) = Some (maxPos s)"
    using att by (simp add: motorSetMin_def motorMoveTo_def outcome_def Let_def)
  show "outcome maxPos (stallguardInterrupt s) = Some (maxPos s)"
    using att by (simp add: stallguardInterrupt_def outcome_def)
  show "outcome maxPos (motorSetMax cfg s) = Some 2147483646"
    using att by (simp add: motorSetMax_def motorMoveTo_def outcome_def Let_def)
  show "outcome memory (motorSetMax cfg s) = Some (memory s)"
    using att by (simp add: motorSetMax_def motorMoveTo_def outcome_def Let_def)
next
  assume att: "stepper s = Some e" and "percentToSteps p (maxPos s) = Inr n"
  then show "outcome maxPos (motorMove p s) = Some (maxPos s)"
    using motorMoveTo_maxPos [of s e n] by (simp add: motorMove_def)
next
  assume att: "stepper s = Some e" and ch: "motorRun cfg s = Inr t \<and> maxPos t \<noteq> maxPos s"
  from motorRun_maxPos_changed [of s e cfg t] att ch
  show "isMotorRunning s" and "\<not> isRunning e" and "isSetMax s \<or> isSetMin s" by blast+
next
  assume att: "stepper s = Some e"
    and fin: "isMotorRunning s \<and> \<not> isRunning e \<and> isSetMax s"
  from motorRun_setMax [of s e cfg] att fin
  show "\<exists>t'. motorRun cfg s = Inr t'
                \<and> maxPos t' = getCurrentPosition e
                \<and> writes (memory t') = writes (memory s) @
                     [(''maxPos'', getCurrentPosition e), (''currPos'', getCurrentPosition e)]
                \<and> store (memory t') ''maxPos'' = Some (getCurrentPosition e)"
    by blast
next
  show "maxPos (engineAdvance q s) = maxPos s" by (simp add: engineAdvance_def)
  show "maxPos (engineArrive s) = maxPos s" by (simp add: engineArrive_def)
qed

theorem maxPos_mutation_witness:
  "stepper ready_state = Some ready_engine
   \<and> percentToSteps 50 (maxPos ready_state) = Inr 25000
   \<and> outcome maxPos (motorMoveTo 25000 ready_state) = Some 50000
   \<and> outcome maxPos (motorMove 50 ready_state) = Some 50000
   \<and> outcome maxPos (motorStop ready_state) = Some 50000
   \<and> outcome maxPos (motorSetMin example_settings ready_state) = Some 50000
   \<and> outcome maxPos (motorSetMax example_settings ready_state) = Some 2147483646
   \<and> stepper setMax_stalled = Some setMax_stalled_engine
   \<and> motorRun example_settings setMax_stalled = Inr setMax_committed
   \<and> maxPos setMax_committed \<noteq> maxPos setMax_stalled
   \<and> isMotorRunning setMax_stalled \<and> \<not> isRunning setMax_stalled_engine
   \<and> isSetMax setMax_stalled
   \<and> maxPos setMax_committed = 48731
   \<and> writes (memory setMax_committed) = [(''maxPos'', 48731), (''currPos'', 48731)]
   \<and> store (memory setMax_committed) ''maxPos'' = Some (maxPos setMax_committed)"
proof -
  have a: "stepper ready_state = Some ready_engine"
    "percentToSteps 50 (maxPos ready_state) = Inr 25000" "maxPos ready_state = 50000"
    by (simp_all add: ready_state_def percentToSteps_half)
  have b: "stepper setMax_stalled = Some setMax_stalled_engine"
    "maxPos setMax_committed \<noteq> maxPos setMax_stalled"
    "maxPos setMax_committed = 48731"
    "writes (memory setMax_committed) = [(''maxPos'', 48731), (''currPos'', 48731)]"
    by (simp_all add: setMax_stalled_def setMax_committed_def)
  note A = maxPos_mutation [of ready_state ready_engine 25000 50 example_settings ready_state 0]
  note B = maxPos_mutation [of setMax_stalled setMax_stalled_engine 25000 50 example_settings
      setMax_committed 0]
  from A a have A1: "outcome maxPos (motorMoveTo 25000 ready_state) = Some 50000"
    "outcome maxPos (motorMove 50 ready_state) = Some 50000"
    "outcome maxPos (motorStop ready_state) = Some 50000"
    "outcome maxPos (motorSetMin example_settings ready_state) = Some 50000"
    "outcome maxPos (motorSetMax example_settings ready_state) = Some 2147483646"
    by simp_all
  have c: "isSetMax setMax_stalled" by (simp add: setMax_stalled_def)
  from B b setMax_stall_poll have B1: "isMotorRunning setMax_stalled"
    "\<not> isRunning setMax_stalled_engine"
    by blast+
  from B b B1 c have "\<exists>t'. motorRun example_settings setMax_stalled = Inr t'
      \<and> maxPos t' = getCurrentPosition setMax_stalled_engine
      \<and> store (memory t') ''maxPos'' = Some (getCurrentPosition setMax_stalled_engine)"
    by blast
  with setMax_stall_poll
  have B2: "store (memory setMax_committed) ''maxPos'' = Some (maxPos setMax_committed)"
    by auto
  from a b c A1 B1 B2 setMax_stall_poll show ?thesis by blast
qed

subsection \<open>A stall during a move\<close>

lemma setMax_underway_run:
  "and_then (and_then (motorSetup example_settings (Some idle_engine) boot_state)
     (motorSetMax example_settings)) (\<lambda>s. Inr (engineAdvance 48731 s)) = Inr setMax_underway"
  unfolding setup_ready
  by (simp add: and_then_def motorSetMax_def motorMoveTo_def engineAdvance_def
      ready_state_def ready_engine_def setMax_underway_def setMax_underway_engine_def
      example_settings_def c_div_def engine_defs Let_def)

lemma setMax_underway_stall: "stallguardInterrupt setMax_underway = Inr setMax_stalled"
  by (simp add: stallguardInterrupt_def setMax_underway_def setMax_underway_engine_def
      setMax_stalled_def setMax_stalled_engine_def engine_defs)

lemma motorRun_issued:
  assumes "stepper s = Some e" and "motorRun cfg s = Inr t"
  shows "issued t = calls e @
           (if isMotorRunning s \<and> \<not> isRunning e then
              (if isSetMax s then [SetSpeedInHz (max_speed cfg)]
               else if isSetMin s then [SetCurrentPosition 0, SetSpeedInHz (max_speed cfg)]
               else [])
            else [])
         \<and> (isMotorRunning s \<and> \<not> isRunning e \<longrightarrow> \<not> isMotorRunning t)"
  using assms
  by (auto simp: motorRun_def issued_def Let_def engine_defs split: if_splits sum.splits)

text \<open>
  Claim C1, as stated, fails on the \<open>SetMax\<close> run that stalls at 48731: \<open>maxPos\<close> was
  50000 before the calibration; the force-stop has been issued by the interrupt, and the poll
  that follows issues none (it only sets the speed back), commits \<open>maxPos = 48731\<close> and
  writes it to the store.
\<close>

theorem stall_commits_maxPos:
  "outcome maxPos (motorSetup example_settings (Some idle_engine) boot_state) = Some 50000
   \<and> setMax_stall_run = Inr setMax_stalled
   \<and> isSetMax setMax_stalled
   \<and> last (issued setMax_stalled) = ForceStop
   \<and> outcome maxPos (motorRun example_settings setMax_stalled) = Some 48731
   \<and> outcome memory (motorRun example_settings setMax_stalled) =
       Some \<lparr>store = [''maxPos'' \<mapsto> 48731, ''currPos'' \<mapsto> 48731],
             writes = [(''maxPos'', 48731), (''currPos'', 48731)]\<rparr>
   \<and> outcome issued (motorRun example_settings setMax_stalled) =
       Some (issued setMax_stalled @ [SetSpeedInHz 30000])"
  unfolding setup_ready setMax_stall_run_state setMax_stall_poll
  by (simp add: outcome_def issued_def ready_state_def setMax_stalled_def
      setMax_stalled_engine_def setMax_committed_def engine_defs)

text \<open>
  Claim C1, amended. When the stall detector fires during a registered move, the interrupt
  handler itself force-stops the engine. The poll that follows issues no force-stop and ends
  the move; if a calibration is active it completes it and commits \<open>maxPos\<close>: the
  reached position, written to the store, for \<open>SetMax\<close>, and
  \<open>maxPos + (2147483646 - reached) - prevPos\<close> for \<open>SetMin\<close>.
\<close>

theorem stall_then_poll:
  assumes "stepper s = Some e" and "isMotorRunning s"
  shows "\<exists>s1. stallguardInterrupt s = Inr s1
           \<and> stepper s1 = Some (forceStop e) \<and> issued s1 = calls e @ [ForceStop]
           \<and> \<not> isRunning (forceStop e)
           \<and> (\<forall>t. motorRun cfg s1 = Inr t \<longrightarrow>
                 ForceStop \<notin> set (drop (length (issued s1)) (issued t))
                 \<and> \<not> isMotorRunning t)
           \<and> (isSetMax s \<longrightarrow>
                 (\<exists>t. motorRun cfg s1 = Inr t \<and> \<not> isSetMax t
                    \<and> maxPos t = getCurrentPosition e
                    \<and> store (memory t) ''maxPos'' = Some (getCurrentPosition e)))
           \<and> (\<not> isSetMax s \<and> isSetMin s \<longrightarrow>
                 (\<exists>t. motorRun cfg s1 = Inr t \<and> \<not> isSetMin t
                    \<and> maxPos t =
                        wrap32 (maxPos s + (2147483646 - getCurrentPosition e) - prevPos s)))"
proof -
  let ?s1 = "s\<lparr>stepper := Some (forceStop e), serial := serial s @ [''[I] Motor stalled'']\<rparr>"
  have int: "stallguardInterrupt s = Inr ?s1"
    using assms(1) by (simp add: stallguardInterrupt_def)
  have st: "stepper ?s1 = Some (forceStop e)" by simp
  have iss: "issued ?s1 = calls e @ [ForceStop]" by (simp add: issued_def engine_defs)
  have halted: "\<not> isRunning (forceStop e)" by (simp add: engine_defs)
  have pos: "getCurrentPosition (forceStop e) = getCurrentPosition e" by (simp add: engine_defs)
  have run1: "isMotorRunning ?s1" using assms(2) by simp
  have poll: "\<forall>t. motorRun cfg ?s1 = Inr t \<longrightarrow>
                 ForceStop \<notin> set (drop (length (issued ?s1)) (issued t))
                 \<and> \<not> isMotorRunning t"
  proof (intro allI impI)
    fix t assume r: "motorRun cfg ?s1 = Inr t"
    from motorRun_issued [OF st r] halted run1
    have "issued t = calls (forceStop e) @
           (if isSetMax s then [SetSpeedInHz (max_speed cfg)]
            else if isSetMin s then [SetCurrentPosition 0, SetSpeedInHz (max_speed cfg)]
            else [])" and fin: "\<not> isMotorRunning t"
      by simp_all
    then have "drop (length (issued ?s1)) (issued t) =
           (if isSetMax s then [SetSpeedInHz (max_speed cfg)]
            else if isSetMin s then [SetCurrentPosition 0, SetSpeedInHz (max_speed cfg)]
            else [])"
      by (simp add: issued_def)
    then show "ForceStop \<notin> set (drop (length (issued ?s1)) (issued t)) \<and> \<not> isMotorRunning t"
      using fin by simp
  qed
  have cmax: "isSetMax s \<longrightarrow>
                 (\<exists>t. motorRun cfg ?s1 = Inr t \<and> \<not> isSetMax t
                    \<and> maxPos t = getCurrentPosition e
                    \<and> store (memory t) ''maxPos'' = Some (getCurrentPosition e))"
  proof
    assume "isSetMax s"
    then have "isSetMax ?s1" by simp
    from motorRun_setMax [OF st run1 halted this, of cfg] pos
    show "\<exists>t. motorRun cfg ?s1 = Inr t \<and> \<not> isSetMax t
                    \<and> maxPos t = getCurrentPosition e
                    \<and> store (memory t) ''maxPos'' = Some (getCurrentPosition e)"
      by auto
  qed
  have cmin: "\<not> isSetMax s \<and> isSetMin s \<longrightarrow>
                 (\<exists>t. motorRun cfg ?s1 = Inr t \<and> \<not> isSetMin t
                    \<and> maxPos t =
                        wrap32 (maxPos s + (2147483646 - getCurrentPosition e) - prevPos s))"
  proof
    assume "\<not> isSetMax s \<and> isSetMin s"
    then have "isSetMin ?s1" and "\<not> isSetMax ?s1" by simp_all
    from motorRun_setMin [OF st run1 halted this, of cfg] pos
    show "\<exists>t. motorRun cfg ?s1 = Inr t \<and> \<not> isSetMin t
                    \<and> maxPos t =
                        wrap32 (maxPos s + (2147483646 - getCurrentPosition e) - prevPos s)"
      by auto
  qed
  from int st iss halted poll cmax cmin show ?thesis by blast
qed


lemma setMin_underway_run:
  "and_then (motorSetMin example_settings setMin_begin) (\<lambda>s. Inr (engineAdvance 2147482146 s))
   = Inr setMin_underway"
  by (simp add: and_then_def motorSetMin_def motorMoveTo_def engineAdvance_def
      setMin_begin_def setMin_begin_engine_def setMin_underway_def setMin_underway_engine_def
      example_settings_def c_div_def engine_defs Let_def)

theorem stall_then_poll_witness:
  "stepper setMax_underway = Some setMax_underway_engine
   \<and> isMotorRunning setMax_underway \<and> isSetMax setMax_underway
   \<and> stallguardInterrupt setMax_underway = Inr setMax_stalled
   \<and> issued setMax_stalled = calls setMax_underway_engine @ [ForceStop]
   \<and> motorRun example_settings setMax_stalled = Inr setMax_committed
   \<and> ForceStop \<notin> set (drop (length (issued setMax_stalled)) (issued setMax_committed))
   \<and> \<not> isMotorRunning setMax_committed \<and> \<not> isSetMax setMax_committed
   \<and> maxPos setMax_committed = 48731
   \<and> store (memory setMax_committed) ''maxPos'' = Some 48731
   \<and> stepper setMin_underway = Some setMin_underway_engine
   \<and> isMotorRunning setMin_underway
   \<and> \<not> isSetMax setMin_underway \<and> isSetMin setMin_underway
   \<and> (\<exists>s1 t. stallguardInterrupt setMin_underway = Inr s1
         \<and> motorRun example_settings s1 = Inr t \<and> \<not> isSetMin t \<and> maxPos t = 50300)"
proof -
  have a: "stepper setMax_underway = Some setMax_underway_engine"
    "isMotorRunning setMax_underway" "isSetMax setMax_underway"
    by (simp_all add: setMax_underway_def)
  have b: "stepper setMin_underway = Some setMin_underway_engine"
    "isMotorRunning setMin_underway" "\<not> isSetMax setMin_underway" "isSetMin setMin_underway"
    by (simp_all add: setMin_underway_def)
  have pos: "getCurrentPosition setMax_underway_engine = 48731"
    by (simp add: setMax_underway_engine_def getCurrentPosition_def)
  have val: "wrap32 (maxPos setMin_underway
      + (2147483646 - getCurrentPosition setMin_underway_engine) - prevPos setMin_underway) = 50300"
    by (simp add: setMin_underway_def setMin_underway_engine_def getCurrentPosition_def
        wrap32_def)
  from stall_then_poll [OF a(1) a(2), of example_settings] a(3)
  obtain s1 where s1: "stallguardInterrupt setMax_underway = Inr s1"
    and i1: "issued s1 = calls setMax_underway_engine @ [ForceStop]"
    and p1: "\<forall>t. motorRun example_settings s1 = Inr t \<longrightarrow>
                 ForceStop \<notin> set (drop (length (issued s1)) (issued t))
                 \<and> \<not> isMotorRunning t"
    and c1: "\<exists>t. motorRun example_settings s1 = Inr t \<and> \<not> isSetMax t
                    \<and> maxPos t = getCurrentPosition setMax_underway_engine
                    \<and> store (memory t) ''maxPos''
                        = Some (getCurrentPosition setMax_underway_engine)"
    by blast
  from s1 setMax_underway_stall have e1: "s1 = setMax_stalled" by simp
  from p1 e1 setMax_stall_poll
  have A1: "ForceStop \<notin> set (drop (length (issued setMax_stalled)) (issued setMax_committed))"
    "\<not> isMotorRunning setMax_committed"
    by blast+
  from c1 e1 setMax_stall_poll pos
  have A2: "\<not> isSetMax setMax_committed" "maxPos setMax_committed = 48731"
    "store (memory setMax_committed) ''maxPos'' = Some 48731"
    by auto
  from stall_then_poll [OF b(1) b(2), of example_settings] b(3) b(4)
  have B1: "\<exists>s1 t. stallguardInterrupt setMin_underway = Inr s1
         \<and> motorRun example_settings s1 = Inr t \<and> \<not> isSetMin t \<and> maxPos t = 50300"
    unfolding val by blast
  from a b i1 e1 A1 A2 B1 setMax_underway_stall setMax_stall_poll show ?thesis by blast
qed

subsection \<open>Moving to a position\<close>

lemma percentToSteps_zero: "percentToSteps 0 50000 = Inr 0"
  by code_simp

lemma percentToSteps_full: "percentToSteps 100 50000 = Inr 50000"
  by code_simp

lemma percentToSteps_inexact: "percentToSteps 100 16777217 = Inr 16777216"
  by code_simp

lemma half_move_underway_run:
  "and_then (motorMove 50 ready_state) (\<lambda>s. Inr (engineAdvance 10000 s)) = Inr half_move_underway"
  by (simp add: and_then_def motorMove_def motorMoveTo_def engineAdvance_def percentToSteps_half
      ready_state_def ready_engine_def half_move_underway_def half_move_underway_engine_def
      engine_defs Let_def)

lemma full_move_underway_run:
  "and_then (motorMove 100 ready_state) (\<lambda>s. Inr (engineAdvance 25000 s)) = Inr full_move_underway"
  by (simp add: and_then_def motorMove_def motorMoveTo_def engineAdvance_def percentToSteps_full
      ready_state_def ready_engine_def full_move_underway_def full_move_underway_engine_def
      engine_defs Let_def)

text \<open>
  Claim C6, as stated, fails for a new target between the motor and the target of the move
  in progress: at 10000 on the way to 25000, the command to go to 20000 keeps the direction
  of travel, and \<open>motorMoveTo\<close> force-stops all the same before it reissues the move.
\<close>

theorem same_direction_force_stop:
  "getCurrentPosition half_move_underway_engine = 10000
   \<and> targetPos half_move_underway_engine = 25000
   \<and> stepper half_move_underway = Some half_move_underway_engine
   \<and> outcome issued (motorMoveTo 20000 half_move_underway)
       = Some (issued half_move_underway @ [ForceStop, MoveTo 20000])"
  by (simp add: motorMoveTo_def outcome_def issued_def half_move_underway_def
      half_move_underway_engine_def ready_state_def ready_engine_def engine_defs Let_def)

text \<open>
  Claim C6, amended. \<open>motorMoveTo\<close> force-stops exactly when the new target and the
  position of the motor lie both below or both above the target in progress. Every reversal
  of direction is such a case; a new target at or beyond the target in progress, or a motor
  that is at its target, is not. After that the move is issued exactly when the new target
  differs from the position of the motor and does not exceed \<open>maxPos\<close>.
\<close>

theorem moveTo_force_stop:
  assumes "stepper s = Some e"
  shows "\<exists>e'. motorMoveTo n s =
             Inr (s\<lparr>stepper := Some e',
                    isMotorRunning :=
                      (isMotorRunning s \<or> (n \<noteq> getCurrentPosition e \<and> n \<le> maxPos s))\<rparr>)
           \<and> calls e' = calls e @
               (if (n < targetPos e \<and> getCurrentPosition e < targetPos e)
                   \<or> (targetPos e < n \<and> targetPos e < getCurrentPosition e)
                then [ForceStop] else []) @
               (if n \<noteq> getCurrentPosition e \<and> n \<le> maxPos s then [MoveTo n] else [])
           \<and> ((n < getCurrentPosition e \<and> getCurrentPosition e < targetPos e)
                \<or> (targetPos e < getCurrentPosition e \<and> getCurrentPosition e < n)
               \<longrightarrow> ForceStop \<in> set (drop (length (calls e)) (calls e')))
           \<and> ((getCurrentPosition e < targetPos e \<and> targetPos e \<le> n)
                \<or> (n \<le> targetPos e \<and> targetPos e < getCurrentPosition e)
                \<or> getCurrentPosition e = targetPos e
               \<longrightarrow> ForceStop \<notin> set (drop (length (calls e)) (calls e')))"
proof -
  from motorMoveTo_attached [OF assms, of n]
  obtain e' where r: "motorMoveTo n s =
             Inr (s\<lparr>stepper := Some e',
                    isMotorRunning :=
                      (isMotorRunning s \<or> (n \<noteq> getCurrentPosition e \<and> n \<le> maxPos s))\<rparr>)"
    and c: "calls e' = calls e @
               (if (n < targetPos e \<and> getCurrentPosition e < targetPos e)
                   \<or> (targetPos e < n \<and> targetPos e < getCurrentPosition e)
                then [ForceStop] else []) @
               (if n \<noteq> getCurrentPosition e \<and> n \<le> maxPos s then [MoveTo n] else [])"
    by blast
  have rev: "(n < getCurrentPosition e \<and> getCurrentPosition e < targetPos e)
                \<or> (targetPos e < getCurrentPosition e \<and> getCurrentPosition e < n)
               \<longrightarrow> ForceStop \<in> set (drop (length (calls e)) (calls e'))"
    unfolding c by auto
  have same: "(getCurrentPosition e < targetPos e \<and> targetPos e \<le> n)
                \<or> (n \<le> targetPos e \<and> targetPos e < getCurrentPosition e)
                \<or> getCurrentPosition e = targetPos e
               \<longrightarrow> ForceStop \<notin> set (drop (length (calls e)) (calls e'))"
    unfolding c by auto
  from r c rev same show ?thesis by blast
qed

theorem moveTo_force_stop_witness:
  "stepper half_move_underway = Some half_move_underway_engine
   \<and> getCurrentPosition half_move_underway_engine = 10000
   \<and> targetPos half_move_underway_engine = 25000
   \<and> outcome issued (motorMoveTo 5000 half_move_underway)
       = Some (issued half_move_underway @ [ForceStop, MoveTo 5000])
   \<and> outcome issued (motorMoveTo 40000 half_move_underway)
       = Some (issued half_move_underway @ [MoveTo 40000])"
proof -
  have a: "stepper half_move_underway = Some half_move_underway_engine"
    "getCurrentPosition half_move_underway_engine = 10000"
    "targetPos half_move_underway_engine = 25000"
    "maxPos half_move_underway = 50000"
    "issued half_move_underway = calls half_move_underway_engine"
    by (simp_all add: half_move_underway_def half_move_underway_engine_def ready_state_def
        issued_def engine_defs)
  from moveTo_force_stop [OF a(1), of 5000]
  have A: "outcome issued (motorMoveTo 5000 half_move_underway)
       = Some (issued half_move_underway @ [ForceStop, MoveTo 5000])"
    unfolding a by (auto simp: outcome_def issued_def)
  from moveTo_force_stop [OF a(1), of 40000]
  have B: "outcome issued (motorMoveTo 40000 half_move_underway)
       = Some (issued half_move_underway @ [MoveTo 40000])"
    unfolding a by (auto simp: outcome_def issued_def)
  from a A B show ?thesis by blast
qed


subsection \<open>Moving to a percentage\<close>

text \<open>
  Claim C8, as stated, fails while a move is in progress: at 25000 on the way to 50000 with
  \<open>maxPos = 50000\<close>, the command to go to 50 percent asks for the position the motor is
  at, and \<open>motorMoveTo\<close> issues a force-stop.
\<close>

theorem force_stop_at_current_position:
  "stepper full_move_underway = Some full_move_underway_engine
   \<and> percentToSteps 50 (maxPos full_move_underway)
       = Inr (getCurrentPosition full_move_underway_engine)
   \<and> outcome issued (motorMove 50 full_move_underway)
       = Some (issued full_move_underway @ [ForceStop])"
  by (simp add: motorMove_def motorMoveTo_def outcome_def issued_def percentToSteps_half
      full_move_underway_def full_move_underway_engine_def ready_state_def ready_engine_def
      engine_defs Let_def)

text \<open>
  Claim C8, amended. When the percentage converts to the position the motor is at,
  \<open>motorMove\<close> issues no \<open>moveTo\<close> and leaves the running flag as it is; it issues a
  force-stop exactly when the target of the engine differs from that position, and changes
  nothing at all when the engine is at its target.
\<close>

theorem move_to_current_position:
  assumes "stepper s = Some e"
    and "percentToSteps p (maxPos s) = Inr (getCurrentPosition e)"
  shows "\<exists>t. motorMove p s = Inr t
           \<and> issued t = calls e @
               (if getCurrentPosition e = targetPos e then [] else [ForceStop])
           \<and> isMotorRunning t = isMotorRunning s
           \<and> (getCurrentPosition e = targetPos e \<longrightarrow> t = s)"
proof -
  let ?t = "s\<lparr>stepper :=
               Some (if getCurrentPosition e = targetPos e then e else forceStop e)\<rparr>"
  have "motorMove p s = Inr ?t"
    using assms by (auto simp: motorMove_def motorMoveTo_def engine_defs Let_def)
  moreover have "issued ?t = calls e @
               (if getCurrentPosition e = targetPos e then [] else [ForceStop])"
    by (simp add: issued_def engine_defs)
  moreover have "isMotorRunning ?t = isMotorRunning s" by simp
  moreover have "getCurrentPosition e = targetPos e \<longrightarrow> ?t = s"
    using assms(1) by (cases s) auto
  ultimately show ?thesis by blast
qed

theorem move_to_current_position_witness:
  "stepper ready_state = Some ready_engine
   \<and> percentToSteps 0 (maxPos ready_state) = Inr (getCurrentPosition ready_engine)
   \<and> getCurrentPosition ready_engine = targetPos ready_engine
   \<and> motorMove 0 ready_state = Inr ready_state
   \<and> stepper full_move_underway = Some full_move_underway_engine
   \<and> percentToSteps 50 (maxPos full_move_underway)
       = Inr (getCurrentPosition full_move_underway_engine)
   \<and> (\<exists>t. motorMove 50 full_move_underway = Inr t
         \<and> issued t = calls full_move_underway_engine @ [ForceStop]
         \<and> isMotorRunning t = isMotorRunning full_move_underway)"
proof -
  have a: "stepper ready_state = Some ready_engine"
    "percentToSteps 0 (maxPos ready_state) = Inr (getCurrentPosition ready_engine)"
    "getCurrentPosition ready_engine = targetPos ready_engine"
    by (simp_all add: ready_state_def ready_engine_def percentToSteps_zero engine_defs)
  have b: "stepper full_move_underway = Some full_move_underway_engine"
    "percentToSteps 50 (maxPos full_move_underway)
       = Inr (getCurrentPosition full_move_underway_engine)"
    "getCurrentPosition full_move_underway_engine \<noteq> targetPos full_move_underway_engine"
    by (simp_all add: full_move_underway_def full_move_underway_engine_def ready_state_def
        ready_engine_def percentToSteps_half engine_defs)
  from move_to_current_position [OF a(1) a(2)] a(3)
  have A: "motorMove 0 ready_state = Inr ready_state" by auto
  from move_to_current_position [OF b(1) b(2)] b(3)
  have B: "\<exists>t. motorMove 50 full_move_underway = Inr t
         \<and> issued t = calls full_move_underway_engine @ [ForceStop]
         \<and> isMotorRunning t = isMotorRunning full_move_underway"
    by auto
  from a b A B show ?thesis by blast
qed

text \<open>
  Claim C2, as stated, fails on both sides of the range and in the conversion. With
  \<open>maxPos = 50000\<close> and the motor at rest at 0: 200 percent converts to 100000, above
  \<open>maxPos\<close>, and \<open>motorMove\<close> changes nothing, the command is dropped; -50 percent
  converts to -25000 and the move to -25000 is issued as it is. With
  \<open>maxPos = 16777217\<close>, 100 percent converts to 16777216.
\<close>

theorem out_of_range_percent_not_clamped:
  "stepper ready_state = Some ready_engine
   \<and> percentToSteps 100 16777217 = Inr 16777216
   \<and> percentToSteps 200 (maxPos ready_state) = Inr 100000
   \<and> motorMove 200 ready_state = Inr ready_state
   \<and> percentToSteps (- 50) (maxPos ready_state) = Inr (- 25000)
   \<and> outcome issued (motorMove (- 50) ready_state)
       = Some (issued ready_state @ [MoveTo (- 25000)])"
  by (simp add: motorMove_def motorMoveTo_def outcome_def issued_def percentToSteps_double
      percentToSteps_negative percentToSteps_inexact ready_state_def ready_engine_def
      engine_defs Let_def)

text \<open>
  Claim C2, amended. When the conversion of the percentage fits an \<open>int\<close>, the target is
  \<open>round((float) percent * (float) maxPos / 100.0)\<close> in floating-point arithmetic, and
  \<open>motorMove\<close> hands it to \<open>motorMoveTo\<close> as it is, with no clamping: the move is
  issued, to that very target, exactly when it differs from the position of the motor and
  does not exceed \<open>maxPos\<close>; a target above \<open>maxPos\<close> is dropped, a negative one is
  issued. With the engine attached, \<open>motorMove\<close> returns.
\<close>

theorem motorMove_unclamped:
  assumes "stepper s = Some e" and "percentToSteps p (maxPos s) = Inr n"
  shows "\<exists>t. motorMove p s = Inr t
           \<and> issued t = calls e @
               (if (n < targetPos e \<and> getCurrentPosition e < targetPos e)
                   \<or> (targetPos e < n \<and> targetPos e < getCurrentPosition e)
                then [ForceStop] else []) @
               (if n \<noteq> getCurrentPosition e \<and> n \<le> maxPos s then [MoveTo n] else [])
           \<and> isMotorRunning t =
               (isMotorRunning s \<or> (n \<noteq> getCurrentPosition e \<and> n \<le> maxPos s))
           \<and> maxPos t = maxPos s
           \<and> n = c_round (to_float (to_double
                 (to_float (to_float (of_int p) * to_float (of_int (maxPos s))) / 100)))"
proof -
  from motorMoveTo_attached [OF assms(1), of n]
  obtain e' where r: "motorMoveTo n s =
             Inr (s\<lparr>stepper := Some e',
                    isMotorRunning :=
                      (isMotorRunning s \<or> (n \<noteq> getCurrentPosition e \<and> n \<le> maxPos s))\<rparr>)"
    and c: "calls e' = calls e @
               (if (n < targetPos e \<and> getCurrentPosition e < targetPos e)
                   \<or> (targetPos e < n \<and> targetPos e < getCurrentPosition e)
                then [ForceStop] else []) @
               (if n \<noteq> getCurrentPosition e \<and> n \<le> maxPos s then [MoveTo n] else [])"
    by blast
  have m: "motorMove p s = motorMoveTo n s"
    using assms(2) by (simp add: motorMove_def)
  have v: "n = c_round (to_float (to_double
                 (to_float (to_float (of_int p) * to_float (of_int (maxPos s))) / 100)))"
    using assms(2) by (simp add: percentToSteps_def cast_int_def Let_def split: if_splits)
  from r c m v show ?thesis by (simp add: issued_def)
qed

theorem motorMove_unclamped_witness:
  "stepper ready_state = Some ready_engine
   \<and> percentToSteps 50 (maxPos ready_state) = Inr 25000
   \<and> percentToSteps 200 (maxPos ready_state) = Inr 100000
   \<and> percentToSteps (- 50) (maxPos ready_state) = Inr (- 25000)
   \<and> (\<exists>t. motorMove 50 ready_state = Inr t
         \<and> issued t = calls ready_engine @ [MoveTo 25000] \<and> isMotorRunning t)
   \<and> (\<exists>t. motorMove 200 ready_state = Inr t
         \<and> issued t = calls ready_engine \<and> \<not> isMotorRunning t)
   \<and> (\<exists>t. motorMove (- 50) ready_state = Inr t
         \<and> issued t = calls ready_engine @ [MoveTo (- 25000)] \<and> isMotorRunning t)"
proof -
  have a: "stepper ready_state = Some ready_engine"
    "percentToSteps 50 (maxPos ready_state) = Inr 25000"
    "percentToSteps 200 (maxPos ready_state) = Inr 100000"
    "percentToSteps (- 50) (maxPos ready_state) = Inr (- 25000)"
    by (simp_all add: ready_state_def percentToSteps_half percentToSteps_double
        percentToSteps_negative)
  have v: "getCurrentPosition ready_engine = 0" "targetPos ready_engine = 0"
    "maxPos ready_state = 50000" "\<not> isMotorRunning ready_state"
    by (simp_all add: ready_state_def ready_engine_def engine_defs)
  from motorMove_unclamped [OF a(1) a(2)]
  have A: "\<exists>t. motorMove 50 ready_state = Inr t
         \<and> issued t = calls ready_engine @ [MoveTo 25000] \<and> isMotorRunning t"
    using v by auto
  from motorMove_unclamped [OF a(1) a(3)]
  have B: "\<exists>t. motorMove 200 ready_state = Inr t
         \<and> issued t = calls ready_engine \<and> \<not> isMotorRunning t"
    using v by auto
  from motorMove_unclamped [OF a(1) a(4)]
  have C: "\<exists>t. motorMove (- 50) ready_state = Inr t
         \<and> issued t = calls ready_engine @ [MoveTo (- 25000)] \<and> isMotorRunning t"
    using v by auto
  from a A B C show ?thesis by blast
qed

subsection \<open>Start and completion of a \<open>SetMin\<close> calibration\<close>

lemma negative_max_run_state: "negative_max_run = Inr negative_max_state"
  by (simp add: negative_max_run_def negative_max_state_def negative_max_engine_def
      and_then_def motorMove_def percentToSteps_negative motorSetMax_def motorMoveTo_def
      stallguardInterrupt_def engineAdvance_def motorRun_def motorCurrentPercentage_full
      putInt_def ready_state_def ready_engine_def example_settings_def c_div_def engine_defs
      Let_def)

lemma motorSetMin_attached:
  assumes "stepper s = Some e"
  shows "\<exists>s' e'. motorSetMin cfg s = Inr s' \<and> stepper s' = Some e'
           \<and> isSetMin s'
           \<and> prevPos s' = getCurrentPosition e
           \<and> getCurrentPosition e' = 2147483646
           \<and> SetCurrentPosition 2147483646 \<in> set (calls e')
           \<and> speedHz e' = c_div (max_speed cfg) 4
           \<and> maxPos s' = maxPos s
           \<and> (0 \<le> maxPos s \<longrightarrow>
                 last (calls e') = MoveTo 0 \<and> targetPos e' = 0 \<and> isMotorRunning s')
           \<and> (maxPos s < 0 \<longrightarrow>
                 MoveTo 0 \<notin> set (drop (length (calls e)) (calls e'))
                 \<and> isMotorRunning s' = isMotorRunning s)"
  using assms by (simp add: motorSetMin_def motorMoveTo_def engine_defs Let_def)

text \<open>
  Claim C5, as stated, fails at the start and at the completion. At the start: after the
  run that left \<open>maxPos = -24000\<close>, \<open>motorSetMin\<close> sets the speed and the counter and
  issues no move, since the guard of \<open>motorMoveTo\<close> refuses a target above \<open>maxPos\<close>.
  At the completion: when a \<open>SetMax\<close> calibration is still pending, the poll that finds
  the \<open>SetMin\<close> move at rest takes the \<open>SetMax\<close> branch: \<open>maxPos\<close> becomes the reached
  position 2147482146, the counter is not set to 0 and \<open>isSetMin\<close> stays set.
\<close>

theorem setMin_without_move_or_formula:
  "negative_max_run = Inr negative_max_state
   \<and> maxPos negative_max_state = - 24000
   \<and> outcome issued (motorSetMin example_settings negative_max_state)
       = Some (issued negative_max_state @ [SetSpeedInHz 7500, SetCurrentPosition 2147483646])
   \<and> outcome isMotorRunning (motorSetMin example_settings negative_max_state) = Some False
   \<and> setMin_over_setMax_run = Inr setMin_over_setMax_stalled
   \<and> isSetMin setMin_over_setMax_stalled \<and> isMotorRunning setMin_over_setMax_stalled
   \<and> prevPos setMin_over_setMax_stalled = 1000
   \<and> outcome maxPos (motorRun example_settings setMin_over_setMax_stalled) = Some 2147482146
   \<and> outcome issued (motorRun example_settings setMin_over_setMax_stalled)
       = Some (issued setMin_over_setMax_stalled @ [SetSpeedInHz 30000])
   \<and> outcome isSetMin (motorRun example_settings setMin_over_setMax_stalled) = Some True"
  unfolding negative_max_run_state setMin_over_setMax_run_state
  by (simp add: motorSetMin_def motorMoveTo_def motorRun_def outcome_def issued_def
      negative_max_state_def negative_max_engine_def setMin_over_setMax_stalled_def
      setMin_over_setMax_engine_def motorCurrentPercentage_full putInt_def
      example_settings_def c_div_def engine_defs Let_def)

text \<open>
  Claim C5, amended. \<open>motorSetMin\<close> saves the position of the engine in \<open>prevPos\<close>,
  sets the counter of the engine to 2147483646 (at a quarter of the speed), and commands the
  move to 0 exactly when \<open>maxPos\<close> is not negative; with a negative \<open>maxPos\<close> it issues
  no move. When the poll finds the motor of this calibration at rest at \<open>r\<close> and no
  \<open>SetMax\<close> calibration is pending, \<open>motorRun\<close> returns with
  \<open>maxPos = maxPos + (2147483646 - r) - prevPos\<close> (in 32-bit arithmetic, and exactly that
  value when it fits), the counter back at 0, the speed back at \<open>max_speed\<close> and no
  calibration flag set. With a \<open>SetMax\<close> calibration pending the poll completes that one
  instead: \<open>maxPos = r\<close>, the counter stays at \<open>r\<close> and \<open>isSetMin\<close> stays set.
\<close>

theorem setMin_calibration:
  "(stepper s = Some e \<longrightarrow>
      (\<exists>s' e'. motorSetMin cfg s = Inr s' \<and> stepper s' = Some e'
           \<and> isSetMin s'
           \<and> prevPos s' = getCurrentPosition e
           \<and> getCurrentPosition e' = 2147483646
           \<and> SetCurrentPosition 2147483646 \<in> set (calls e')
           \<and> speedHz e' = c_div (max_speed cfg) 4
           \<and> maxPos s' = maxPos s
           \<and> (0 \<le> maxPos s \<longrightarrow>
                 last (calls e') = MoveTo 0 \<and> targetPos e' = 0 \<and> isMotorRunning s')
           \<and> (maxPos s < 0 \<longrightarrow>
                 MoveTo 0 \<notin> set (drop (length (calls e)) (calls e'))
                 \<and> isMotorRunning s' = isMotorRunning s)))
   \<and> (stepper t = Some d \<and> isMotorRunning t \<and> \<not> isRunning d \<and> isSetMin t \<longrightarrow>
        (\<not> isSetMax t \<longrightarrow>
           (\<exists>t' d'. motorRun cfg t = Inr t' \<and> stepper t' = Some d'
              \<and> maxPos t' =
                  wrap32 (maxPos t + (2147483646 - getCurrentPosition d) - prevPos t)
              \<and> (in_int32 (maxPos t + (2147483646 - getCurrentPosition d) - prevPos t) \<longrightarrow>
                   maxPos t' = maxPos t + (2147483646 - getCurrentPosition d) - prevPos t)
              \<and> getCurrentPosition d' = 0 \<and> currPos t' = 0
              \<and> speedHz d' = max_speed cfg
              \<and> calls d' = calls d @ [SetCurrentPosition 0, SetSpeedInHz (max_speed cfg)]
              \<and> \<not> isSetMin t' \<and> \<not> isSetMax t' \<and> \<not> isMotorRunning t'))
        \<and> (isSetMax t \<longrightarrow>
           (\<exists>t' d'. motorRun cfg t = Inr t' \<and> stepper t' = Some d'
              \<and> maxPos t' = getCurrentPosition d
              \<and> getCurrentPosition d' = getCurrentPosition d
              \<and> speedHz d' = max_speed cfg
              \<and> calls d' = calls d @ [SetSpeedInHz (max_speed cfg)]
              \<and> isSetMin t' \<and> \<not> isSetMax t' \<and> \<not> isMotorRunning t')))"
proof (intro conjI impI)
  assume "stepper s = Some e"
  then show "\<exists>s' e'. motorSetMin cfg s = Inr s' \<and> stepper s' = Some e'
           \<and> isSetMin s'
           \<and> prevPos s' = getCurrentPosition e
           \<and> getCurrentPosition e' = 2147483646
           \<and> SetCurrentPosition 2147483646 \<in> set (calls e')
           \<and> speedHz e' = c_div (max_speed cfg) 4
           \<and> maxPos s' = maxPos s
           \<and> (0 \<le> maxPos s \<longrightarrow>
                 last (calls e') = MoveTo 0 \<and> targetPos e' = 0 \<and> isMotorRunning s')
           \<and> (maxPos s < 0 \<longrightarrow>
                 MoveTo 0 \<notin> set (drop (length (calls e)) (calls e'))
                 \<and> isMotorRunning s' = isMotorRunning s)"
    by (rule motorSetMin_attached)
next
  assume h: "stepper t = Some d \<and> isMotorRunning t \<and> \<not> isRunning d \<and> isSetMin t"
    and n: "\<not> isSetMax t"
  then obtain t' d' where r: "motorRun cfg t = Inr t'" "stepper t' = Some d'"
      "maxPos t' = wrap32 (maxPos t + (2147483646 - getCurrentPosition d) - prevPos t)"
      "getCurrentPosition d' = 0" "currPos t' = 0" "speedHz d' = max_speed cfg"
      "calls d' = calls d @ [SetCurrentPosition 0, SetSpeedInHz (max_speed cfg)]"
      "\<not> isSetMin t'" "\<not> isSetMax t'" "\<not> isMotorRunning t'"
    using motorRun_setMin [of t d cfg] by auto
  then show "\<exists>t' d'. motorRun cfg t = Inr t' \<and> stepper t' = Some d'
              \<and> maxPos t' =
                  wrap32 (maxPos t + (2147483646 - getCurrentPosition d) - prevPos t)
              \<and> (in_int32 (maxPos t + (2147483646 - getCurrentPosition d) - prevPos t) \<longrightarrow>
                   maxPos t' = maxPos t + (2147483646 - getCurrentPosition d) - prevPos t)
              \<and> getCurrentPosition d' = 0 \<and> currPos t' = 0
              \<and> speedHz d' = max_speed cfg
              \<and> calls d' = calls d @ [SetCurrentPosition 0, SetSpeedInHz (max_speed cfg)]
              \<and> \<not> isSetMin t' \<and> \<not> isSetMax t' \<and> \<not> isMotorRunning t'"
    by (simp add: wrap32_id)
next
  assume h: "stepper t = Some d \<and> isMotorRunning t \<and> \<not> isRunning d \<and> isSetMin t"
    and m: "isSetMax t"
  then obtain t' where r: "motorRun cfg t = Inr t'"
      "stepper t' = Some (setSpeedInHz (max_speed cfg) d)"
      "maxPos t' = getCurrentPosition d"
      "\<not> isSetMax t'" "isSetMin t' = isSetMin t" "\<not> isMotorRunning t'"
    using motorRun_setMax [of t d cfg] by auto
  with h show "\<exists>t' d'. motorRun cfg t = Inr t' \<and> stepper t' = Some d'
              \<and> maxPos t' = getCurrentPosition d
              \<and> getCurrentPosition d' = getCurrentPosition d
              \<and> speedHz d' = max_speed cfg
              \<and> calls d' = calls d @ [SetSpeedInHz (max_speed cfg)]
              \<and> isSetMin t' \<and> \<not> isSetMax t' \<and> \<not> isMotorRunning t'"
    by (simp add: engine_defs)
qed

text \<open>
  From 1200 with \<open>maxPos = 50000\<close>, 1500 steps down: the move to 0 is commanded and the
  new \<open>maxPos\<close> is 50300. With \<open>maxPos = -24000\<close> no move is commanded. With the
  \<open>SetMax\<close> calibration pending the poll commits the reached position.
\<close>

theorem setMin_calibration_witness:
  "stepper setMin_begin = Some setMin_begin_engine \<and> 0 \<le> maxPos setMin_begin
   \<and> (\<exists>s' e'. motorSetMin example_settings setMin_begin = Inr s' \<and> stepper s' = Some e'
         \<and> isSetMin s' \<and> isMotorRunning s' \<and> prevPos s' = 1200
         \<and> getCurrentPosition e' = 2147483646
         \<and> last (calls e') = MoveTo 0 \<and> targetPos e' = 0)
   \<and> stepper negative_max_state = Some negative_max_engine \<and> maxPos negative_max_state < 0
   \<and> (\<exists>s' e'. motorSetMin example_settings negative_max_state = Inr s'
         \<and> stepper s' = Some e' \<and> isSetMin s' \<and> \<not> isMotorRunning s'
         \<and> MoveTo 0 \<notin> set (drop (length (calls negative_max_engine)) (calls e')))
   \<and> setMin_stall_run = Inr setMin_stalled
   \<and> stepper setMin_stalled = Some setMin_stalled_engine
   \<and> isMotorRunning setMin_stalled \<and> \<not> isRunning setMin_stalled_engine
   \<and> isSetMin setMin_stalled \<and> \<not> isSetMax setMin_stalled
   \<and> (\<exists>t' d'. motorRun example_settings setMin_stalled = Inr t' \<and> stepper t' = Some d'
         \<and> maxPos t' = 50300 \<and> getCurrentPosition d' = 0 \<and> currPos t' = 0
         \<and> speedHz d' = 30000
         \<and> \<not> isSetMin t' \<and> \<not> isSetMax t' \<and> \<not> isMotorRunning t')
   \<and> stepper setMin_over_setMax_stalled = Some setMin_over_setMax_engine
   \<and> isMotorRunning setMin_over_setMax_stalled \<and> \<not> isRunning setMin_over_setMax_engine
   \<and> isSetMin setMin_over_setMax_stalled \<and> isSetMax setMin_over_setMax_stalled
   \<and> (\<exists>t' d'. motorRun example_settings setMin_over_setMax_stalled = Inr t'
         \<and> stepper t' = Some d'
         \<and> maxPos t' = 2147482146 \<and> getCurrentPosition d' = 2147482146
         \<and> isSetMin t' \<and> \<not> isSetMax t')"
proof -
  have a: "stepper setMin_begin = Some setMin_begin_engine" "0 \<le> maxPos setMin_begin"
    by (simp_all add: setMin_begin_def)
  have b: "stepper setMin_stalled = Some setMin_stalled_engine
           \<and> isMotorRunning setMin_stalled \<and> \<not> isRunning setMin_stalled_engine
           \<and> isSetMin setMin_stalled" "\<not> isSetMax setMin_stalled"
    by (simp_all add: setMin_stalled_def setMin_stalled_engine_def isRunning_def)
  have c: "stepper negative_max_state = Some negative_max_engine"
    "maxPos negative_max_state < 0" "\<not> isMotorRunning negative_max_state"
    by (simp_all add: negative_max_state_def)
  have d: "stepper setMin_over_setMax_stalled = Some setMin_over_setMax_engine
           \<and> isMotorRunning setMin_over_setMax_stalled
           \<and> \<not> isRunning setMin_over_setMax_engine
           \<and> isSetMin setMin_over_setMax_stalled" "isSetMax setMin_over_setMax_stalled"
    by (simp_all add: setMin_over_setMax_stalled_def setMin_over_setMax_engine_def
        isRunning_def)
  have vals: "getCurrentPosition setMin_begin_engine = 1200"
    "maxPos setMin_stalled + (2147483646 - getCurrentPosition setMin_stalled_engine)
       - prevPos setMin_stalled = 50300"
    "max_speed example_settings = 30000"
    "getCurrentPosition setMin_over_setMax_engine = 2147482146"
    by (simp_all add: setMin_begin_engine_def setMin_stalled_def setMin_stalled_engine_def
        setMin_over_setMax_engine_def example_settings_def getCurrentPosition_def)
  have rng: "in_int32 50300" by (simp add: in_int32_def INT_MIN_def INT_MAX_def)
  note A = setMin_calibration [of setMin_begin setMin_begin_engine example_settings
      setMin_stalled setMin_stalled_engine]
  note B = setMin_calibration [of negative_max_state negative_max_engine example_settings
      setMin_over_setMax_stalled setMin_over_setMax_engine]
  from A a have start: "\<exists>s' e'. motorSetMin example_settings setMin_begin = Inr s'
         \<and> stepper s' = Some e'
         \<and> isSetMin s' \<and> isMotorRunning s' \<and> prevPos s' = 1200
         \<and> getCurrentPosition e' = 2147483646
         \<and> last (calls e') = MoveTo 0 \<and> targetPos e' = 0"
    unfolding vals by blast
  from B c have nomove: "\<exists>s' e'. motorSetMin example_settings negative_max_state = Inr s'
         \<and> stepper s' = Some e' \<and> isSetMin s' \<and> \<not> isMotorRunning s'
         \<and> MoveTo 0 \<notin> set (drop (length (calls negative_max_engine)) (calls e'))"
    by blast
  from A b have fin: "\<exists>t' d'. motorRun example_settings setMin_stalled = Inr t'
         \<and> stepper t' = Some d'
         \<and> maxPos t' = 50300 \<and> getCurrentPosition d' = 0 \<and> currPos t' = 0
         \<and> speedHz d' = 30000
         \<and> \<not> isSetMin t' \<and> \<not> isSetMax t' \<and> \<not> isMotorRunning t'"
    unfolding vals using rng by blast
  from B d have over: "\<exists>t' d'. motorRun example_settings setMin_over_setMax_stalled = Inr t'
         \<and> stepper t' = Some d'
         \<and> maxPos t' = 2147482146 \<and> getCurrentPosition d' = 2147482146
         \<and> isSetMin t' \<and> \<not> isSetMax t'"
    unfolding vals by blast
  from a b c d start nomove fin over setMin_stall_run_state show ?thesis by blast
qed

end
